theory Spec2Isabelle
  imports Complex_Main "HOL-Library.Product_Lexorder" "HOL-Library.AList"
begin

section \<open>Values of the pipelines\<close>

text \<open>
  The module \<open>pyannote/audio/pipeline/simple.py\<close> holds two pipelines,
  \<open>SimpleDiarization\<close> (segment level) and \<open>DiscreteDiarization\<close> (frame level).
  Times and scores are Python floats; they are modelled as real numbers, so rounding and
  NaN are outside the model.
\<close>

text \<open>Exceptions. \<open>RuntimeError\<close> stands for the class and its subclasses, which is
  what \<open>except RuntimeError\<close> catches.\<close>

datatype error = RuntimeError | ValueError | IndexError | KeyError | StopIteration
  | OtherError string

text \<open>\<open>pyannote.core.Segment\<close>: a pair of times.\<close>

record Segment =
  start :: real
  end' :: real

text \<open>A score curve: one row per frame, one column per class.\<close>

type_synonym scores = "real list list"

text \<open>The protocol file is a dictionary; the keys read or written by the pipelines are
  fields, an absent key is \<open>None\<close>.\<close>

record current_file =
  audio :: string
  uri :: "string option"
  duration :: "real option"
  sad_scores :: "scores option"
  scd_scores :: "scores option"
  ovl_scores :: "scores option"

text \<open>Calls into the pretrained models and into the clustering library, in the order
  in which an invocation makes them.\<close>

datatype event = Sad_model | Scd_model | Ovl_model | Emb_model | Emb_crop Segment
  | Pool_fcluster nat

text \<open>The state an invocation works on: the protocol file, which it mutates to cache
  scores, and the calls made so far.\<close>

record world =
  cfile :: current_file
  trace :: "event list"

type_synonym 'a prog = "world \<Rightarrow> (error + 'a) \<times> world"

definition ret :: "'a \<Rightarrow> 'a prog" where
  "ret x = (\<lambda>w. (Inr x, w))"

definition raise :: "error \<Rightarrow> 'a prog" where
  "raise e = (\<lambda>w. (Inl e, w))"

definition lift :: "error + 'a \<Rightarrow> 'a prog" where
  "lift r = (\<lambda>w. (r, w))"

definition bnd :: "'a prog \<Rightarrow> ('a \<Rightarrow> 'b prog) \<Rightarrow> 'b prog" where
  "bnd m f = (\<lambda>w. case m w of (Inl e, w') \<Rightarrow> (Inl e, w') | (Inr x, w') \<Rightarrow> f x w')"

definition catch :: "'a prog \<Rightarrow> (error \<Rightarrow> 'a prog) \<Rightarrow> 'a prog" where
  "catch m h = (\<lambda>w. case m w of (Inl e, w') \<Rightarrow> h e w' | (Inr x, w') \<Rightarrow> (Inr x, w'))"

definition get_file :: "current_file prog" where
  "get_file = (\<lambda>w. (Inr (cfile w), w))"

definition set_file :: "(current_file \<Rightarrow> current_file) \<Rightarrow> unit prog" where
  "set_file g = (\<lambda>w. (Inr (), w\<lparr>cfile := g (cfile w)\<rparr>))"

text \<open>A call of an external collaborator on the protocol file: it is logged, and it
  returns or raises.\<close>

definition extern :: "event \<Rightarrow> (current_file \<Rightarrow> error + 'a) \<Rightarrow> 'a prog" where
  "extern ev call = (\<lambda>w. (call (cfile w), w\<lparr>trace := trace w @ [ev]\<rparr>))"

section \<open>Segments (pyannote.core)\<close>

definition SEGMENT_PRECISION :: real where
  "SEGMENT_PRECISION = 1 / 1000000"

text \<open>\<open>Segment.__bool__\<close>: a segment is empty when it lasts no more than 1 microsecond.\<close>

definition nonempty :: "Segment \<Rightarrow> bool" where
  "nonempty s = (end' s - start s > SEGMENT_PRECISION)"

text \<open>\<open>Segment.duration\<close>: \<open>self.end - self.start if self else 0.\<close>\<close>

definition duration_of :: "Segment \<Rightarrow> real" where
  "duration_of s = (if nonempty s then end' s - start s else 0)"

text \<open>\<open>Segment.middle\<close>: \<open>.5 * (self.start + self.end)\<close>\<close>

definition middle :: "Segment \<Rightarrow> real" where
  "middle s = 0.5 * (start s + end' s)"

text \<open>\<open>Segment.__and__\<close>, \<open>Segment.__or__\<close> and \<open>Segment.__xor__\<close> (the gap between two
  segments; it is applied to the non-empty segments of a timeline only).\<close>

definition Segment_and :: "Segment \<Rightarrow> Segment \<Rightarrow> Segment" where
  "Segment_and s t = \<lparr>start = max (start s) (start t), end' = min (end' s) (end' t)\<rparr>"

definition Segment_or :: "Segment \<Rightarrow> Segment \<Rightarrow> Segment" where
  "Segment_or s t =
     (if \<not> nonempty s then t
      else if \<not> nonempty t then s
      else \<lparr>start = min (start s) (start t), end' = max (end' s) (end' t)\<rparr>)"

definition Segment_xor :: "Segment \<Rightarrow> Segment \<Rightarrow> Segment" where
  "Segment_xor s t = \<lparr>start = min (end' s) (end' t), end' = max (start s) (start t)\<rparr>"

definition intersects :: "Segment \<Rightarrow> Segment \<Rightarrow> bool" where
  "intersects s t =
     ((start s < start t \<and> start t < end' s - SEGMENT_PRECISION)
      \<or> (start s > start t \<and> start s < end' t - SEGMENT_PRECISION)
      \<or> start s = start t)"

section \<open>Timelines (pyannote.core)\<close>

text \<open>A timeline keeps the non-empty segments it is given as a sorted set, ordered by
  \<open>(start, end)\<close>; it is modelled by the list of its segments in iteration order.\<close>

definition seg_key :: "Segment \<Rightarrow> real \<times> real" where
  "seg_key s = (start s, end' s)"

definition Timeline :: "Segment list \<Rightarrow> Segment list" where
  "Timeline segments = sort_key seg_key (remdups (filter nonempty segments))"

text \<open>\<open>Timeline.support_iter\<close> with collar 0: consecutive segments without a gap between
  them are merged.\<close>

fun support_iter :: "Segment \<Rightarrow> Segment list \<Rightarrow> Segment list" where
  "support_iter new_segment [] = [new_segment]"
| "support_iter new_segment (segment # rest) =
     (let possible_gap = Segment_xor segment new_segment in
      if \<not> nonempty possible_gap \<or> duration_of possible_gap < 0
      then support_iter (Segment_or new_segment segment) rest
      else new_segment # support_iter segment rest)"

definition Timeline_support :: "Segment list \<Rightarrow> Segment list" where
  "Timeline_support timeline =
     (case timeline of [] \<Rightarrow> Timeline [] | first # _ \<Rightarrow> Timeline (support_iter first timeline))"

text \<open>\<open>Timeline.co_iter\<close>: the pairs of intersecting segments; for each segment the other
  timeline is scanned up to the key \<open>(segment.end, segment.end)\<close>.\<close>

definition co_iter :: "Segment list \<Rightarrow> Segment list \<Rightarrow> (Segment \<times> Segment) list" where
  "co_iter timeline other =
     concat (map (\<lambda>segment.
        map (\<lambda>other_segment. (segment, other_segment))
          (filter (\<lambda>other_segment. seg_key other_segment \<le> (end' segment, end' segment)
                     \<and> intersects segment other_segment) other)) timeline)"

text \<open>\<open>Timeline.crop(support, mode="intersection")\<close> for a timeline \<open>support\<close>.\<close>

definition Timeline_crop :: "Segment list \<Rightarrow> Segment list \<Rightarrow> Segment list" where
  "Timeline_crop timeline support =
     Timeline (filter nonempty
       (map (\<lambda>(segment, other_segment). Segment_and segment other_segment)
          (co_iter timeline (Timeline_support support))))"

text \<open>\<open>Timeline.gaps(support=extent)\<close> for a segment \<open>extent\<close>: the timeline is cropped to
  the extent, and the gaps between the segments of the support of the result are
  collected, with the gap before the first and after the last one.\<close>

fun gaps_iter :: "real \<Rightarrow> Segment list \<Rightarrow> real \<Rightarrow> Segment list" where
  "gaps_iter e [] support_end =
     (let gap = \<lparr>start = e, end' = support_end\<rparr> in if nonempty gap then [gap] else [])"
| "gaps_iter e (segment # rest) support_end =
     (let gap = \<lparr>start = e, end' = start segment\<rparr> in
      (if nonempty gap then [gap] else []) @ gaps_iter (end' segment) rest support_end)"

definition Timeline_gaps :: "Segment list \<Rightarrow> Segment \<Rightarrow> Segment list" where
  "Timeline_gaps timeline extent =
     Timeline (gaps_iter (start extent)
       (Timeline_support (Timeline_crop timeline (Timeline [extent]))) (end' extent))"

section \<open>Annotations (pyannote.core)\<close>

text \<open>Labels are strings or cluster numbers. An annotation maps \<open>(segment, track)\<close> to a
  label; it is modelled by an association list with one entry per key.\<close>

datatype label = Str string | Num int

record Annotation =
  ann_uri :: "string option"
  tracks :: "((Segment \<times> string) \<times> label) list"

definition Annotation_empty :: "string option \<Rightarrow> Annotation" where
  "Annotation_empty u = \<lparr>ann_uri = u, tracks = []\<rparr>"

text \<open>\<open>Annotation.__setitem__\<close>: an empty segment is ignored.\<close>

definition setitem :: "Annotation \<Rightarrow> Segment \<times> string \<Rightarrow> label \<Rightarrow> Annotation" where
  "setitem a key l =
     (if \<not> nonempty (fst key) then a else a\<lparr>tracks := AList.update key l (tracks a)\<rparr>)"

text \<open>\<open>Annotation.update\<close>: every track of the other annotation is written into this one.\<close>

definition Annotation_update :: "Annotation \<Rightarrow> Annotation \<Rightarrow> Annotation" where
  "Annotation_update a other = fold (\<lambda>(key, l) r. setitem r key l) (tracks other) a"

text \<open>The label generators handed to \<open>Timeline.to_annotation\<close>: \<open>"string"\<close>, which yields
  \<open>A, ..., Z, AA, AB, ...\<close> (every word over the capital letters, shorter words first, each
  length in the order of \<open>itertools.product\<close>), \<open>iter(lambda: "A", None)\<close>, which yields
  the same label for ever, and \<open>iter\<close> of an array.\<close>

datatype generator = String_generator | Constant label | Iter "label list"

definition ascii_uppercase :: string where
  "ascii_uppercase = ''ABCDEFGHIJKLMNOPQRSTUVWXYZ''"

function string_label :: "nat \<Rightarrow> string" where
  "string_label n =
     (if n < 26 then [ascii_uppercase ! n]
      else string_label (n div 26 - 1) @ [ascii_uppercase ! (n mod 26)])"
  by pat_completeness auto
termination
  by (relation "measure id") auto

text \<open>The first \<open>n\<close> values of a generator; \<open>next\<close> on an exhausted iterator raises
  \<open>StopIteration\<close>.\<close>

fun gen_take :: "generator \<Rightarrow> nat \<Rightarrow> error + label list" where
  "gen_take String_generator n = Inr (map (\<lambda>i. Str (string_label i)) [0..<n])"
| "gen_take (Constant l) n = Inr (replicate n l)"
| "gen_take (Iter ls) n = (if n \<le> length ls then Inr (take n ls) else Inl StopIteration)"

text \<open>\<open>Timeline.to_annotation(generator)\<close>: each segment, in order, gets the next label on
  the track \<open>"_"\<close>.\<close>

definition Timeline_to_annotation ::
  "Segment list \<Rightarrow> string option \<Rightarrow> generator \<Rightarrow> error + Annotation" where
  "Timeline_to_annotation timeline u g =
     (case gen_take g (length timeline) of
        Inl e \<Rightarrow> Inl e
      | Inr ls \<Rightarrow> Inr (fold (\<lambda>(segment, l) a. setitem a (segment, ''_'') l) (zip timeline ls)
                        (Annotation_empty u)))"

text \<open>\<open>Annotation.new_track(segment, candidate)\<close>: the candidate when the segment has no
  track of that name, else the first of \<open>"0", "1", ...\<close> that is free. Among as many
  numbers as there are tracks plus one, one is free.\<close>

function string_of_nat :: "nat \<Rightarrow> string" where
  "string_of_nat n =
     (if n < 10 then [char_of (48 + n)]
      else string_of_nat (n div 10) @ [char_of (48 + n mod 10)])"
  by pat_completeness auto
termination
  by (relation "measure id") auto

definition new_track :: "Annotation \<Rightarrow> Segment \<Rightarrow> string \<Rightarrow> string" where
  "new_track a segment candidate =
     (let existing_tracks = map (\<lambda>(key, l). snd key)
                              (filter (\<lambda>(key, l). fst key = segment) (tracks a)) in
      if candidate \<notin> set existing_tracks then candidate
      else (case find (\<lambda>count. string_of_nat count \<notin> set existing_tracks)
                   [0..<Suc (length existing_tracks)] of
              Some count \<Rightarrow> string_of_nat count
            | None \<Rightarrow> string_of_nat (length existing_tracks)))"

text \<open>\<open>Annotation.crop(support, mode="intersection")\<close> for a timeline \<open>support\<close>: every track
  of a segment is copied onto the intersection of the segment with each segment of the
  support it intersects.\<close>

definition get_timeline :: "Annotation \<Rightarrow> Segment list" where
  "get_timeline a = Timeline (map (\<lambda>(key, l). fst key) (tracks a))"

definition tracks_of :: "Annotation \<Rightarrow> Segment \<Rightarrow> (string \<times> label) list" where
  "tracks_of a segment =
     map (\<lambda>(key, l). (snd key, l)) (filter (\<lambda>(key, l). fst key = segment) (tracks a))"

definition Annotation_crop :: "Annotation \<Rightarrow> Segment list \<Rightarrow> Annotation" where
  "Annotation_crop a support =
     fold (\<lambda>(segment, other_segment) cropped.
             let intersection = Segment_and segment other_segment in
             fold (\<lambda>(track, l) cropped.
                     setitem cropped (intersection, new_track cropped intersection track) l)
               (tracks_of a segment) cropped)
       (co_iter (get_timeline a) (Timeline_support support))
       \<lparr>ann_uri = ann_uri a, tracks = []\<rparr>"

section \<open>Arrays (numpy, scipy)\<close>

text \<open>\<open>np.nanmean\<close> of a score array: the mean of all its entries. On an empty array numpy
  returns NaN, which is not below 0; here the quotient is 0, which is not below 0 either.\<close>

definition nanmean :: "scores \<Rightarrow> real" where
  "nanmean x = sum_list (concat x) / real (length (concat x))"

definition np_exp :: "scores \<Rightarrow> scores" where
  "np_exp x = map (map exp) x"

text \<open>\<open>np.argmin\<close> of a vector: the first index of a least entry.\<close>

primrec argmin_from :: "real \<Rightarrow> nat \<Rightarrow> nat \<Rightarrow> real list \<Rightarrow> nat" where
  "argmin_from best pos i [] = pos"
| "argmin_from best pos i (x # xs) =
     (if x < best then argmin_from x i (Suc i) xs else argmin_from best pos (Suc i) xs)"

definition argmin :: "real list \<Rightarrow> nat" where
  "argmin xs = (case xs of [] \<Rightarrow> 0 | x # rest \<Rightarrow> argmin_from x 0 1 rest)"

text \<open>\<open>cdist(XA, XB)\<close>: one row per vector of \<open>XA\<close>, one column per vector of \<open>XB\<close>.\<close>

definition cdist :: "('e \<Rightarrow> 'e \<Rightarrow> real) \<Rightarrow> 'e list \<Rightarrow> 'e list \<Rightarrow> real list list" where
  "cdist metric XA XB = map (\<lambda>a. map (metric a) XB) XA"

definition column :: "'a list list \<Rightarrow> nat \<Rightarrow> 'a list" where
  "column M j = map (\<lambda>row. row ! j) M"

text \<open>\<open>np.argmin(M, axis=0)\<close>: for each column the row of its least entry; an array without
  rows has no minimum.\<close>

definition np_argmin_axis0 :: "real list list \<Rightarrow> error + nat list" where
  "np_argmin_axis0 M =
     (case M of [] \<Rightarrow> Inl ValueError
      | row # _ \<Rightarrow> Inr (map (\<lambda>j. argmin (column M j)) [0..<length row]))"

text \<open>Indexing an array by an array of indices.\<close>

definition np_take :: "'a list \<Rightarrow> nat list \<Rightarrow> error + 'a list" where
  "np_take xs ixs =
     (if \<forall>i \<in> set ixs. i < length xs then Inr (map (\<lambda>i. xs ! i) ixs) else Inl IndexError)"

definition bindE :: "error + 'a \<Rightarrow> ('a \<Rightarrow> error + 'b) \<Rightarrow> error + 'b" where
  "bindE r f = (case r of Inl e \<Rightarrow> Inl e | Inr x \<Rightarrow> f x)"

fun mapM :: "('a \<Rightarrow> 'b prog) \<Rightarrow> 'a list \<Rightarrow> 'b list prog" where
  "mapM f [] = ret []"
| "mapM f (x # xs) = bnd (f x) (\<lambda>y. bnd (mapM f xs) (\<lambda>ys. ret (y # ys)))"

fun mapE :: "('a \<Rightarrow> error + 'b) \<Rightarrow> 'a list \<Rightarrow> error + 'b list" where
  "mapE f [] = Inr []"
| "mapE f (x # xs) = bindE (f x) (\<lambda>y. bindE (mapE f xs) (\<lambda>ys. Inr (y # ys)))"

fun foldE :: "('a \<Rightarrow> 'b \<Rightarrow> error + 'b) \<Rightarrow> 'a list \<Rightarrow> 'b \<Rightarrow> error + 'b" where
  "foldE f [] s = Inr s"
| "foldE f (x # xs) s = bindE (f x s) (foldE f xs)"

text \<open>The encodings of the frame-level pipeline have one column (one label); such an
  array is modelled by that column. \<open>np.where(x)[0]\<close>: the rows of the non-zero entries.\<close>

definition np_where :: "int list \<Rightarrow> nat list" where
  "np_where x = filter (\<lambda>i. x ! i \<noteq> 0) [0..<length x]"

text \<open>The product of two columns: entry by entry, a column of one row being broadcast.\<close>

definition np_mul :: "int list \<Rightarrow> int list \<Rightarrow> error + int list" where
  "np_mul x y =
     (if length x = length y then Inr (map2 (*) x y)
      else if length x = 1 then Inr (map (\<lambda>b. hd x * b) y)
      else if length y = 1 then Inr (map (\<lambda>a. a * hd y) x)
      else Inl ValueError)"

text \<open>\<open>np.max\<close> raises on an empty array.\<close>

definition np_max :: "int list \<Rightarrow> error + int" where
  "np_max x = (case x of [] \<Rightarrow> Inl ValueError | a # rest \<Rightarrow> Inr (fold max rest a))"

text \<open>\<open>np.zeros((n, m))\<close> raises on a negative dimension.\<close>

definition np_zeros :: "nat \<Rightarrow> int \<Rightarrow> error + int list list" where
  "np_zeros n m = (if m < 0 then Inl ValueError else Inr (replicate n (replicate (nat m) 0)))"

text \<open>\<open>y[i, k] = 1\<close>: a negative \<open>k\<close> counts from the end; an index out of range raises.\<close>

definition set_one :: "int list list \<Rightarrow> nat \<Rightarrow> int \<Rightarrow> error + int list list" where
  "set_one y i k =
     (if length y \<le> i then Inl IndexError
      else let n = int (length (y ! i)); j = (if k < 0 then n + k else k) in
           if 0 \<le> j \<and> j < n then Inr (y[i := (y ! i)[nat j := 1]]) else Inl IndexError)"

text \<open>Indexing by a boolean mask, which must be as long as the array.\<close>

definition np_select :: "'a list \<Rightarrow> bool list \<Rightarrow> error + 'a list" where
  "np_select xs selected =
     (if length selected = length xs then Inr (map fst (filter snd (zip xs selected)))
      else Inl IndexError)"

text \<open>\<open>np.vstack\<close> needs at least one array.\<close>

definition np_vstack :: "'a list \<Rightarrow> error + 'a list" where
  "np_vstack xs = (if xs = [] then Inl ValueError else Inr xs)"

text \<open>\<open>np.argpartition(M, kth, axis=0)\<close>: on an array that is not empty, \<open>kth\<close> must be
  below the number of rows. Each column is replaced by an order of its row numbers that
  numpy chooses; the result is given column by column, that is, transposed.\<close>

definition np_argpartition_axis0 ::
  "(real list \<Rightarrow> nat \<Rightarrow> nat list) \<Rightarrow> real list list \<Rightarrow> nat \<Rightarrow> error + nat list list" where
  "np_argpartition_axis0 order M kth =
     (let ncols = (case M of [] \<Rightarrow> 0 | row # _ \<Rightarrow> length row) in
      if length M * ncols \<noteq> 0 \<and> kth \<ge> length M then Inl ValueError
      else Inr (map (\<lambda>j. order (column M j) kth) [0..<ncols]))"

section \<open>SimpleDiarization.get_embedding\<close>

text \<open>The collaborators of the two pipelines: the pretrained models (\<open>ovl\<close> is optional,
  \<open>emb\<close> yields one embedding per frame of a sliding window, \<open>emb_crop\<close> the frame
  embeddings of one segment), the binarizers and the peak detector built by
  \<open>initialize\<close>, and the library calls whose results are taken as given: \<open>np.mean\<close> over
  a stack of embeddings, \<open>pool\<close> followed by \<open>fcluster\<close>, the cosine distance of \<open>cdist\<close>,
  the order \<open>np.argpartition\<close> returns for one column, and the encoding and decoding of
  annotations on a sliding window. \<open>'e\<close> is the type of one embedding vector.\<close>

record SlidingWindow =
  sw_start :: real
  sw_duration :: real
  sw_step :: real

record 'e SlidingWindowFeature =
  data :: "'e list"
  sliding_window :: SlidingWindow

record 'e collaborators =
  sad :: "current_file \<Rightarrow> error + scores"
  scd :: "current_file \<Rightarrow> error + scores"
  ovl :: "(current_file \<Rightarrow> error + scores) option"
  emb :: "current_file \<Rightarrow> error + 'e SlidingWindowFeature"
  emb_crop :: "current_file \<Rightarrow> Segment \<Rightarrow> error + 'e list"
  np_mean :: "'e list \<Rightarrow> 'e"
  sad_binarize_apply :: "scores \<Rightarrow> error + Segment list"
  scd_peak_apply :: "scores \<Rightarrow> error + Segment list"
  ovl_binarize_apply :: "scores \<Rightarrow> error + Segment list"
  pool_fcluster :: "'e list \<Rightarrow> real \<Rightarrow> error + int list"
  cdist_cosine :: "'e \<Rightarrow> 'e \<Rightarrow> real"
  argpartition_order :: "real list \<Rightarrow> nat \<Rightarrow> nat list"
  one_hot_encoding :: "Annotation \<Rightarrow> Segment list \<Rightarrow> SlidingWindow \<Rightarrow> error + int list"
  one_hot_decoding :: "int list list \<Rightarrow> SlidingWindow \<Rightarrow> label list \<Rightarrow> error + Annotation"

definition MIN_DURATION :: real where
  "MIN_DURATION = 0.157"

text \<open>The body of the \<open>except\<close> clause up to the second crop. \<open>current_file["duration"]\<close>
  is read in the second test only.\<close>

definition extended_segment :: "current_file \<Rightarrow> Segment \<Rightarrow> error + Segment" where
  "extended_segment f segment =
     (if middle segment - 0.5 * MIN_DURATION < 0.0
      then Inr \<lparr>start = 0.0, end' = MIN_DURATION\<rparr>
      else (case duration f of
              None \<Rightarrow> Inl KeyError
            | Some d \<Rightarrow>
                if middle segment + 0.5 * MIN_DURATION > d
                then Inr \<lparr>start = d - MIN_DURATION, end' = d\<rparr>
                else Inr \<lparr>start = middle segment - 0.5 * MIN_DURATION,
                          end' = middle segment + 0.5 * MIN_DURATION\<rparr>))"

definition crop_call :: "'e collaborators \<Rightarrow> Segment \<Rightarrow> 'e list prog" where
  "crop_call env segment = extern (Emb_crop segment) (\<lambda>f. emb_crop env f segment)"

definition get_embedding :: "'e collaborators \<Rightarrow> Segment \<Rightarrow> 'e prog" where
  "get_embedding env segment =
     bnd (catch (crop_call env segment)
            (\<lambda>e. if e = RuntimeError
                  then bnd get_file (\<lambda>f.
                       bnd (lift (extended_segment f segment)) (\<lambda>extended.
                       crop_call env extended))
                  else raise e))
         (\<lambda>embeddings. ret (np_mean env embeddings))"

section \<open>SimpleDiarization.__call__\<close>

text \<open>The hyper-parameters read by \<open>__call__\<close>; the others are held by the binarizer and
  the peak detector.\<close>

record simple_hyper =
  seg_min_duration :: real
  emb_duration :: real
  emb_threshold :: real

text \<open>Scores are taken from the protocol file when it holds them; otherwise the model is
  applied, log-probabilities are turned into probabilities, and the result is stored in
  the file.\<close>

definition cached_scores ::
  "(current_file \<Rightarrow> scores option) \<Rightarrow> (scores \<Rightarrow> current_file \<Rightarrow> current_file) \<Rightarrow> event
   \<Rightarrow> (current_file \<Rightarrow> error + scores) \<Rightarrow> scores prog" where
  "cached_scores lookup store ev model =
     bnd get_file (\<lambda>f.
       case lookup f of
         Some cached \<Rightarrow> ret cached
       | None \<Rightarrow>
           bnd (extern ev model) (\<lambda>raw.
           let corrected = (if nanmean raw < 0 then np_exp raw else raw) in
           bnd (set_file (store corrected)) (\<lambda>_. ret corrected)))"

definition get_sad_scores :: "(current_file \<Rightarrow> error + scores) \<Rightarrow> scores prog" where
  "get_sad_scores model =
     cached_scores sad_scores (\<lambda>v f. f\<lparr>sad_scores := Some v\<rparr>) Sad_model model"

definition get_scd_scores :: "(current_file \<Rightarrow> error + scores) \<Rightarrow> scores prog" where
  "get_scd_scores model =
     cached_scores scd_scores (\<lambda>v f. f\<lparr>scd_scores := Some v\<rparr>) Scd_model model"

definition get_ovl_scores :: "(current_file \<Rightarrow> error + scores) \<Rightarrow> scores prog" where
  "get_ovl_scores model =
     cached_scores ovl_scores (\<lambda>v f. f\<lparr>ovl_scores := Some v\<rparr>) Ovl_model model"

text \<open>The speech regions split at change points, and the candidate segments: those
  without the tiny segments.\<close>

definition remove_tiny :: "simple_hyper \<Rightarrow> Segment list \<Rightarrow> Segment list" where
  "remove_tiny hp seg = filter (\<lambda>s. duration_of s > min 0.1 (seg_min_duration hp)) seg"

definition SimpleDiarization_split :: "'e collaborators \<Rightarrow> Segment list prog" where
  "SimpleDiarization_split env =
     bnd (get_sad_scores (sad env)) (\<lambda>sad_scores.
     bnd (lift (sad_binarize_apply env sad_scores)) (\<lambda>speech.
     bnd (get_scd_scores (scd env)) (\<lambda>scd_scores.
     bnd (lift (scd_peak_apply env scd_scores)) (\<lambda>change.
     ret (Timeline_crop (Timeline change) (Timeline speech))))))"

definition SimpleDiarization_segments ::
  "'e collaborators \<Rightarrow> simple_hyper \<Rightarrow> Segment list prog" where
  "SimpleDiarization_segments env hp =
     bnd (SimpleDiarization_split env) (\<lambda>seg. ret (remove_tiny hp seg))"

text \<open>The cluster of each short segment: that of the closest long segment.\<close>

definition assign_short ::
  "('e \<Rightarrow> 'e \<Rightarrow> real) \<Rightarrow> int list \<Rightarrow> 'e list \<Rightarrow> 'e list \<Rightarrow> error + int list" where
  "assign_short metric cluster_long emb_long emb_shrt =
     bindE (np_argmin_axis0 (cdist metric emb_long emb_shrt)) (np_take cluster_long)"

definition SimpleDiarization_cluster ::
  "'e collaborators \<Rightarrow> simple_hyper \<Rightarrow> string option \<Rightarrow> Segment list \<Rightarrow> Annotation prog" where
  "SimpleDiarization_cluster env hp u seg =
     (let seg_long = filter (\<lambda>s. duration_of s \<ge> emb_duration hp) seg in
      if length seg_long = 0
      then lift (Timeline_to_annotation (Timeline seg) u String_generator)
      else if length seg_long = 1
      then lift (Timeline_to_annotation (Timeline seg) u (Constant (Str ''A'')))
      else
        bnd (mapM (get_embedding env) seg_long) (\<lambda>emb_long.
        bnd (extern (Pool_fcluster (length emb_long))
               (\<lambda>_. pool_fcluster env emb_long (emb_threshold hp))) (\<lambda>cluster_long.
        let seg_shrt = filter (\<lambda>s. duration_of s < emb_duration hp) seg in
        if length seg_shrt = 0
        then lift (Timeline_to_annotation (Timeline seg) u (Iter (map Num cluster_long)))
        else
          bnd (mapM (get_embedding env) seg_shrt) (\<lambda>emb_shrt.
          bnd (lift (assign_short (cdist_cosine env) cluster_long emb_long emb_shrt))
            (\<lambda>cluster_shrt.
          bnd (lift (Timeline_to_annotation (Timeline seg_long) u
                       (Iter (map Num cluster_long)))) (\<lambda>long_annotation.
          bnd (lift (Timeline_to_annotation (Timeline seg_shrt) u
                       (Iter (map Num cluster_shrt)))) (\<lambda>shrt_annotation.
          ret (Annotation_update long_annotation shrt_annotation))))))))"

definition SimpleDiarization_call ::
  "'e collaborators \<Rightarrow> simple_hyper \<Rightarrow> Annotation prog" where
  "SimpleDiarization_call env hp =
     bnd get_file (\<lambda>f.
     let u = Some (case uri f of None \<Rightarrow> ''pyannote'' | Some v \<Rightarrow> v) in
     bnd (SimpleDiarization_segments env hp) (\<lambda>seg.
     SimpleDiarization_cluster env hp u seg))"

section \<open>DiscreteDiarization.__call__\<close>

text \<open>A timeline turned into an annotation with one label and encoded on the window of
  the embeddings, cut to the number of embeddings.\<close>

definition encode ::
  "'e collaborators \<Rightarrow> Segment list \<Rightarrow> string \<Rightarrow> Segment \<Rightarrow> 'e SlidingWindowFeature
   \<Rightarrow> error + int list" where
  "encode env timeline name extent features =
     bindE (Timeline_to_annotation timeline None (Constant (Str name))) (\<lambda>a.
     bindE (one_hot_encoding env a (Timeline [extent]) (sliding_window features)) (\<lambda>y.
     Inr (take (length (data features)) y)))"

record overlap_info =
  clean_speech :: "Segment list"
  noisy_speech :: "Segment list"
  clean_speech_indices :: "nat list"
  noisy_speech_indices :: "nat list"

text \<open>The block run when an overlap detector is configured: the overlap regions are
  obtained from the overlap scores; from them, the regions and the frames of clean and of
  overlapped speech.\<close>

definition DiscreteDiarization_regions ::
  "'e collaborators \<Rightarrow> 'e SlidingWindowFeature \<Rightarrow> Segment \<Rightarrow> Segment list \<Rightarrow> int list
   \<Rightarrow> Segment list \<Rightarrow> overlap_info prog" where
  "DiscreteDiarization_regions env features extent speech speech_discrete overlap =
     (let clean = Timeline_crop speech (Timeline_gaps overlap extent);
          noisy = Timeline_crop speech overlap in
      bnd (lift (encode env overlap ''overlap'' extent features)) (\<lambda>overlap_discrete.
      bnd (lift (np_mul speech_discrete (map (\<lambda>x. 1 - x) overlap_discrete))) (\<lambda>c.
      bnd (lift (np_mul speech_discrete overlap_discrete)) (\<lambda>n.
      ret \<lparr>clean_speech = clean, noisy_speech = noisy,
           clean_speech_indices = np_where c, noisy_speech_indices = np_where n\<rparr>))))"

definition DiscreteDiarization_overlap ::
  "'e collaborators \<Rightarrow> (current_file \<Rightarrow> error + scores) \<Rightarrow> 'e SlidingWindowFeature
   \<Rightarrow> Segment \<Rightarrow> Segment list \<Rightarrow> int list \<Rightarrow> overlap_info prog" where
  "DiscreteDiarization_overlap env ovl_model features extent speech speech_discrete =
     bnd (get_ovl_scores ovl_model) (\<lambda>ovl_scores.
     bnd (lift (ovl_binarize_apply env ovl_scores)) (\<lambda>binarized.
     DiscreteDiarization_regions env features extent speech speech_discrete
       (Timeline binarized)))"

text \<open>The second annotation: each frame of overlapped speech gets the clusters whose
  average embedding is closest.\<close>

definition overlap_hypothesis ::
  "'e collaborators \<Rightarrow> 'e SlidingWindowFeature \<Rightarrow> 'e list \<Rightarrow> int list \<Rightarrow> int \<Rightarrow> nat list
   \<Rightarrow> error + Annotation" where
  "overlap_hypothesis env features X cluster num_clusters noisy_indices =
     bindE (bindE (mapE (\<lambda>k. bindE (np_select X (map (\<lambda>c. c = k) cluster))
                              (\<lambda>members. Inr (np_mean env members)))
                     [0..num_clusters - 1]) np_vstack) (\<lambda>cluster_emb.
     bindE (np_take (data features) noisy_indices) (\<lambda>noisy.
     let distance = cdist (cdist_cosine env) cluster_emb noisy;
         k = nat (min 2 num_clusters) in
     bindE (np_argpartition_axis0 (argpartition_order env) distance k) (\<lambda>order.
     let most_similar_cluster_indices = map (take k) order in
     bindE (bindE (np_zeros (length (data features)) num_clusters)
              (foldE (\<lambda>(i, ks) y. foldE (\<lambda>k y. set_one y i (int k)) ks y)
                 (zip noisy_indices most_similar_cluster_indices))) (\<lambda>y.
     one_hot_decoding env y (sliding_window features) (map Num [0..num_clusters - 1])))))"

text \<open>The invocation from the speech regions on: the frames of speech, the clustering of
  their embeddings, and the annotations decoded from it.\<close>

definition DiscreteDiarization_frames ::
  "'e collaborators \<Rightarrow> real \<Rightarrow> string option \<Rightarrow> Segment \<Rightarrow> 'e SlidingWindowFeature
   \<Rightarrow> Segment list \<Rightarrow> Annotation prog" where
  "DiscreteDiarization_frames env threshold u extent features speech =
     bnd (lift (encode env speech ''speech'' extent features)) (\<lambda>speech_discrete.
     let speech_indices = np_where speech_discrete in
     if length speech_indices = 0 then ret (Annotation_empty u)
     else
       bnd (case ovl env of
              None \<Rightarrow> ret None
            | Some ovl_model \<Rightarrow>
                bnd (DiscreteDiarization_overlap env ovl_model features extent speech
                       speech_discrete) (\<lambda>info. ret (Some info))) (\<lambda>info.
       let indices = (case info of None \<Rightarrow> speech_indices
                      | Some i \<Rightarrow> clean_speech_indices i) in
       bnd (lift (np_take (data features) indices)) (\<lambda>X.
       bnd (extern (Pool_fcluster (length X)) (\<lambda>_. pool_fcluster env X threshold))
         (\<lambda>flat.
       let cluster = map (\<lambda>c. c - 1) flat in
       bnd (lift (np_max cluster)) (\<lambda>highest.
       let num_clusters = highest + 1 in
       bnd (lift (bindE (np_zeros (length (data features)) num_clusters)
                    (foldE (\<lambda>(i, k) y. set_one y i k) (zip indices cluster)))) (\<lambda>y.
       bnd (lift (one_hot_decoding env y (sliding_window features)
                    (map Num [0..num_clusters - 1]))) (\<lambda>decoded.
       let hypothesis = decoded\<lparr>ann_uri := u\<rparr> in
       case info of
         None \<Rightarrow> ret (Annotation_crop hypothesis speech)
       | Some i \<Rightarrow>
           bnd (lift (overlap_hypothesis env features X cluster num_clusters
                        (noisy_speech_indices i))) (\<lambda>noisy_hypothesis.
           ret (Annotation_update (Annotation_crop hypothesis (clean_speech i))
                  (Annotation_crop noisy_hypothesis (noisy_speech i)))))))))))"

definition DiscreteDiarization_call :: "'e collaborators \<Rightarrow> real \<Rightarrow> Annotation prog" where
  "DiscreteDiarization_call env threshold =
     bnd get_file (\<lambda>f.
     let u = Some (case uri f of None \<Rightarrow> ''pyannote'' | Some v \<Rightarrow> v) in
     bnd (lift (case duration f of None \<Rightarrow> Inl KeyError
                | Some d \<Rightarrow> Inr \<lparr>start = 0, end' = d\<rparr>)) (\<lambda>extent.
     bnd (extern Emb_model (emb env)) (\<lambda>features.
     bnd (get_sad_scores (sad env)) (\<lambda>sad_scores.
     bnd (lift (sad_binarize_apply env sad_scores)) (\<lambda>binarized.
     DiscreteDiarization_frames env threshold u extent features (Timeline binarized))))))"

section \<open>Notions used in the statements\<close>

text \<open>The lists a timeline iterates over: sorted by \<open>(start, end)\<close>, without repetition,
  of non-empty segments.\<close>

definition is_timeline :: "Segment list \<Rightarrow> bool" where
  "is_timeline xs = (sorted (map seg_key xs) \<and> distinct xs \<and> list_all nonempty xs)"

text \<open>What a step leaves of the world: the trace grows by the given kind of events, the
  keys uri and duration of the file stay.\<close>

definition grows :: "event set \<Rightarrow> world \<Rightarrow> world \<Rightarrow> bool" where
  "grows E w w' =
     (\<exists>evs. trace w' = trace w @ evs \<and> set evs \<subseteq> E
        \<and> uri (cfile w') = uri (cfile w) \<and> duration (cfile w') = duration (cfile w))"

text \<open>A step that only crops embeddings: the file stays, the trace grows by crops.\<close>

definition crops_only :: "world \<Rightarrow> world \<Rightarrow> bool" where
  "crops_only w w' =
     (cfile w' = cfile w \<and> (\<exists>evs. trace w' = trace w @ evs \<and> set evs \<subseteq> range Emb_crop))"

text \<open>The crops one call of \<open>get_embedding\<close> requests from the embedding model: the segment,
  and the extended segment when the first crop raised \<open>RuntimeError\<close> and the extension exists.\<close>

definition crops_of :: "'e collaborators \<Rightarrow> current_file \<Rightarrow> Segment \<Rightarrow> event list" where
  "crops_of env f segment =
     (case emb_crop env f segment of
        Inr embeddings \<Rightarrow> [Emb_crop segment]
      | Inl e \<Rightarrow>
          if e = RuntimeError
          then (case extended_segment f segment of
                  Inl e' \<Rightarrow> [Emb_crop segment]
                | Inr extended \<Rightarrow> [Emb_crop segment, Emb_crop extended])
          else [Emb_crop segment])"

text \<open>The correction of scores that the model has just computed: they are exponentiated
  exactly when their mean is negative.\<close>

definition corrected :: "scores \<Rightarrow> scores" where
  "corrected raw = (if nanmean raw < 0 then map (map exp) raw else raw)"

text \<open>The cosine distance of scipy and the mean of numpy on vectors given as lists, for
  the example below.\<close>

definition cosine :: "real list \<Rightarrow> real list \<Rightarrow> real" where
  "cosine u v =
     1 - sum_list (map2 (*) u v) / (sqrt (sum_list (map2 (*) u u)) * sqrt (sum_list (map2 (*) v v)))"

definition mean_axis0 :: "real list list \<Rightarrow> real list" where
  "mean_axis0 X =
     (case X of [] \<Rightarrow> []
      | row # _ \<Rightarrow> map (\<lambda>j. sum_list (column X j) / real (length X)) [0..<length row])"

text \<open>An example: a recording of 10 s with speech from 0 to 9 s and in the last 50 ms, and
  speaker changes at 4 s and 7 s. The speech detector returns log-probabilities. A crop shorter than 157 ms is
  refused by the embedding model; the embedding of a crop depends on where it starts.
  Clustering separates the embedding \<open>[1, 0]\<close> from the others.\<close>

definition example_file :: current_file where
  "example_file = \<lparr>audio = ''a.wav'', uri = None, duration = Some 10, sad_scores = None,
     scd_scores = None, ovl_scores = None\<rparr>"

definition example_world :: world where
  "example_world = \<lparr>cfile = example_file, trace = []\<rparr>"

text \<open>The state after an invocation on the example: the scores are cached.\<close>

definition example_cached :: world where
  "example_cached =
     \<lparr>cfile = example_file\<lparr>sad_scores := Some [[exp (-2)], [exp (-1)]],
                            scd_scores := Some [[1 / 2], [1 / 4]]\<rparr>,
      trace = [Sad_model, Scd_model]\<rparr>"

definition example_hyper :: "real \<Rightarrow> simple_hyper" where
  "example_hyper d = \<lparr>seg_min_duration = 0.2, emb_duration = d, emb_threshold = 0.5\<rparr>"

definition example_env :: "real list collaborators" where
  "example_env =
     \<lparr>sad = (\<lambda>f. Inr [[-2], [-1]]),
      scd = (\<lambda>f. Inr [[1 / 2], [1 / 4]]),
      ovl = None,
      emb = (\<lambda>f. Inr \<lparr>data = [],
                sliding_window = \<lparr>sw_start = 0, sw_duration = 1, sw_step = 1\<rparr>\<rparr>),
      emb_crop = (\<lambda>f s. if end' s - start s < 0.157 then Inl RuntimeError
                         else Inr [if start s < 4 then [1, 0]
                                   else if start s < 7 then [0, 1] else [1, 1]]),
      np_mean = mean_axis0,
      sad_binarize_apply = (\<lambda>x. Inr [\<lparr>start = 0, end' = 9\<rparr>,
                                       \<lparr>start = 9.95, end' = 10\<rparr>]),
      scd_peak_apply = (\<lambda>x. Inr [\<lparr>start = 0, end' = 4\<rparr>, \<lparr>start = 4, end' = 7\<rparr>,
                                   \<lparr>start = 7, end' = 10\<rparr>]),
      ovl_binarize_apply = (\<lambda>x. Inr []),
      pool_fcluster = (\<lambda>X t. Inr (map (\<lambda>x. if x = [1, 0] then 1 else 2) X)),
      cdist_cosine = cosine,
      argpartition_order = (\<lambda>c kth. [0..<length c]),
      one_hot_encoding = (\<lambda>a support window. Inr []),
      one_hot_decoding = (\<lambda>y window labels. Inr (Annotation_empty None))\<rparr>"

text \<open>The state after the invocation with \<open>emb_duration = 2.5\<close>, and a variant of the
  example whose embedding model fails in another way on the second attempt.\<close>

definition example_clustered :: world where
  "example_clustered =
     example_cached\<lparr>trace := [Sad_model, Scd_model,
        Emb_crop \<lparr>start = 0, end' = 4\<rparr>, Emb_crop \<lparr>start = 4, end' = 7\<rparr>, Pool_fcluster 2,
        Emb_crop \<lparr>start = 7, end' = 9\<rparr>]\<rparr>"

definition example_failing_env :: "real list collaborators" where
  "example_failing_env =
     example_env\<lparr>emb_crop := (\<lambda>f s. if end' s - start s > 1 then Inl RuntimeError
                                     else Inl (OtherError ''out of memory''))\<rparr>"

text \<open>A variant whose embedding model accepts the long segments, refuses the short ones and
  fails in another way on the second attempt.\<close>

definition example_short_failing_env :: "real list collaborators" where
  "example_short_failing_env =
     example_env\<lparr>emb_crop := (\<lambda>f s. if end' s - start s \<ge> 2.5
                                     then Inr [if start s < 4 then [1, 0] else [0, 1]]
                                     else if end' s - start s > 1 then Inl RuntimeError
                                     else Inl (OtherError ''out of memory''))\<rparr>"


text \<open>The calls of one invocation of the segment-level pipeline: the speech detector, the
  change detector and the clustering at most once each, in this order, with crops of
  embeddings before and after the clustering.\<close>

definition once :: "event list \<Rightarrow> bool" where
  "once evs = (\<exists>a b c p d. evs = a @ b @ c @ p @ d
      \<and> (a = [] \<or> a = [Sad_model]) \<and> (b = [] \<or> b = [Scd_model])
      \<and> set c \<subseteq> range Emb_crop \<and> (p = [] \<or> (\<exists>n. p = [Pool_fcluster n]))
      \<and> set d \<subseteq> range Emb_crop)"

text \<open>An example for the frame-level pipeline: a recording of 4 s with one embedding per
  second, on windows of 1 s. A frame is marked when its middle lies in a segment. Decoding
  gives one track per frame and cluster. The clustering refuses an empty input, puts
  everything in one cluster when the threshold is at least 1, and otherwise separates the
  embeddings equal to the first one from the others. The speech and overlap regions are
  parameters of the example.\<close>

definition frame_segment :: "SlidingWindow \<Rightarrow> nat \<Rightarrow> Segment" where
  "frame_segment window i =
     \<lparr>start = sw_start window + real i * sw_step window,
      end' = sw_start window + real i * sw_step window + sw_duration window\<rparr>"

definition example_encoding :: "Annotation \<Rightarrow> Segment list \<Rightarrow> SlidingWindow \<Rightarrow> error + int list" where
  "example_encoding a support window =
     Inr (map (\<lambda>i. if list_ex (\<lambda>(key, l). start (fst key) \<le> middle (frame_segment window i)
                                    \<and> middle (frame_segment window i) < end' (fst key)) (tracks a)
                     then 1 else 0) [0, 1, 2, 3])"

definition example_decoding ::
  "int list list \<Rightarrow> SlidingWindow \<Rightarrow> label list \<Rightarrow> error + Annotation" where
  "example_decoding y window labels =
     Inr \<lparr>ann_uri = None,
          tracks = concat (map (\<lambda>i. concat (map (\<lambda>k.
                     if y ! i ! k \<noteq> 0 then [((frame_segment window i, string_of_nat k), labels ! k)]
                     else []) [0..<length labels])) [0..<length y])\<rparr>"

definition example_frames_env :: "Segment list \<Rightarrow> Segment list \<Rightarrow> real list collaborators" where
  "example_frames_env speech overlap =
     \<lparr>sad = (\<lambda>f. Inr [[1 / 2]]),
      scd = (\<lambda>f. Inr [[1 / 2]]),
      ovl = Some (\<lambda>f. Inr [[1 / 2]]),
      emb = (\<lambda>f. Inr \<lparr>data = [[1, 0], [0, 1], [1, 1], [1, 1]],
                sliding_window = \<lparr>sw_start = 0, sw_duration = 1, sw_step = 1\<rparr>\<rparr>),
      emb_crop = (\<lambda>f s. Inr [[1, 0]]),
      np_mean = mean_axis0,
      sad_binarize_apply = (\<lambda>x. Inr speech),
      scd_peak_apply = (\<lambda>x. Inr []),
      ovl_binarize_apply = (\<lambda>x. Inr overlap),
      pool_fcluster = (\<lambda>X t. if X = [] then Inl ValueError
                              else Inr (map (\<lambda>x. if 1 \<le> t \<or> x = hd X then 1 else 2) X)),
      cdist_cosine = cosine,
      argpartition_order = (\<lambda>c kth. [0..<length c]),
      one_hot_encoding = example_encoding,
      one_hot_decoding = example_decoding\<rparr>"

definition example_frames_file :: current_file where
  "example_frames_file = \<lparr>audio = ''b.wav'', uri = Some ''b'', duration = Some 4,
     sad_scores = None, scd_scores = None, ovl_scores = None\<rparr>"

section \<open>Effects\<close>

lemma bnd_Inr: "m w = (Inr x, w') \<Longrightarrow> bnd m f w = f x w'"
  by (simp add: bnd_def)

lemma bnd_Inl: "m w = (Inl e, w') \<Longrightarrow> bnd m f w = (Inl e, w')"
  by (simp add: bnd_def)

lemma bnd_InrD:
  "bnd m f w = (Inr y, w'') \<Longrightarrow> \<exists>x w'. m w = (Inr x, w') \<and> f x w' = (Inr y, w'')"
  by (auto simp: bnd_def split: prod.splits sum.splits)

section \<open>The extension of a segment whose extraction failed\<close>

lemma get_embedding_first_ok:
  "emb_crop env (cfile w) segment = Inr x \<Longrightarrow>
   get_embedding env segment w
     = (Inr (np_mean env x), w\<lparr>trace := trace w @ [Emb_crop segment]\<rparr>)"
  by (simp add: get_embedding_def bnd_def catch_def crop_call_def extern_def ret_def)

lemma get_embedding_first_other:
  "emb_crop env (cfile w) segment = Inl e \<Longrightarrow> e \<noteq> RuntimeError \<Longrightarrow>
   get_embedding env segment w = (Inl e, w\<lparr>trace := trace w @ [Emb_crop segment]\<rparr>)"
  by (simp add: get_embedding_def bnd_def catch_def crop_call_def extern_def raise_def)

lemma get_embedding_retry:
  "emb_crop env (cfile w) segment = Inl RuntimeError \<Longrightarrow>
   extended_segment (cfile w) segment = Inr x \<Longrightarrow>
   get_embedding env segment w
     = (map_sum id (np_mean env) (emb_crop env (cfile w) x),
        w\<lparr>trace := trace w @ [Emb_crop segment, Emb_crop x]\<rparr>)"
  by (cases "emb_crop env (cfile w) x")
     (simp_all add: get_embedding_def bnd_def catch_def crop_call_def extern_def ret_def
        get_file_def lift_def)

lemma get_embedding_retry_KeyError:
  "emb_crop env (cfile w) segment = Inl RuntimeError \<Longrightarrow>
   extended_segment (cfile w) segment = Inl e \<Longrightarrow>
   get_embedding env segment w = (Inl e, w\<lparr>trace := trace w @ [Emb_crop segment]\<rparr>)"
  by (simp add: get_embedding_def bnd_def catch_def crop_call_def extern_def
        get_file_def lift_def)

text \<open>
  C3. When the first extraction on a segment raises \<open>RuntimeError\<close> in a recording of
  duration \<open>D\<close>, the crops requested are the segment itself and then, with \<open>m\<close> the
  midpoint of the segment, \<open>[0, 0.157]\<close> if \<open>m - 0.0785 < 0\<close>, \<open>[D - 0.157, D]\<close> if
  \<open>m + 0.0785 > D\<close>, and \<open>[m - 0.0785, m + 0.0785]\<close> otherwise.
\<close>

theorem get_embedding_extended_segment:
  assumes "emb_crop env (cfile w) segment = Inl RuntimeError"
    and "duration (cfile w) = Some D"
  shows "trace (snd (get_embedding env segment w))
           = trace w @ [Emb_crop segment,
               Emb_crop (let m = (start segment + end' segment) / 2 in
                  if m - 0.0785 < 0 then \<lparr>start = 0, end' = 0.157\<rparr>
                  else if m + 0.0785 > D then \<lparr>start = D - 0.157, end' = D\<rparr>
                  else \<lparr>start = m - 0.0785, end' = m + 0.0785\<rparr>)]"
proof -
  let ?m = "(start segment + end' segment) / 2"
  have mid: "middle segment = ?m"
    by (simp add: middle_def)
  have half: "0.5 * MIN_DURATION = 0.0785"
    by (simp add: MIN_DURATION_def)
  have "extended_segment (cfile w) segment
          = Inr (if ?m - 0.0785 < 0 then \<lparr>start = 0, end' = 0.157\<rparr>
                 else if ?m + 0.0785 > D then \<lparr>start = D - 0.157, end' = D\<rparr>
                 else \<lparr>start = ?m - 0.0785, end' = ?m + 0.0785\<rparr>)"
    unfolding extended_segment_def mid half using assms(2)
    by (simp add: MIN_DURATION_def)
  from get_embedding_retry [OF assms(1) this] show ?thesis
    by (simp add: Let_def)
qed

text \<open>The 50 ms interval centred at 5.0 s of the example recording.\<close>

theorem get_embedding_extended_segment_witness:
  "trace (snd (get_embedding example_env \<lparr>start = 4.975, end' = 5.025\<rparr> example_world))
   = [Emb_crop \<lparr>start = 4.975, end' = 5.025\<rparr>, Emb_crop \<lparr>start = 4.9215, end' = 5.0785\<rparr>]"
  using get_embedding_extended_segment
    [of example_env example_world "\<lparr>start = 4.975, end' = 5.025\<rparr>" 10]
  by (simp add: example_env_def example_world_def example_file_def)

section \<open>Timelines and their annotations\<close>

declare string_label.simps [simp del]
declare string_of_nat.simps [simp del]

lemma seg_key_inj: "seg_key s = seg_key t \<Longrightarrow> s = t"
  by (cases s, cases t) (simp add: seg_key_def)

lemma is_timeline_Timeline: "is_timeline (Timeline xs)"
  by (simp add: is_timeline_def Timeline_def list_all_iff)

lemma set_Timeline: "set (Timeline xs) = {s \<in> set xs. nonempty s}"
  by (auto simp: Timeline_def)

lemma Timeline_id: "is_timeline xs \<Longrightarrow> Timeline xs = xs"
  by (simp add: is_timeline_def Timeline_def list_all_iff sort_key_id_if_sorted
        distinct_remdups_id)

lemma is_timeline_filter: "is_timeline xs \<Longrightarrow> is_timeline (filter P xs)"
  by (auto simp: is_timeline_def list_all_iff sorted_filter)

lemma update_fresh: "k \<notin> fst ` set al \<Longrightarrow> AList.update k v al = al @ [(k, v)]"
  by (induction al) auto

lemma fold_setitem:
  "distinct (map fst kvs) \<Longrightarrow> list_all nonempty (map fst kvs) \<Longrightarrow>
   (\<forall>s \<in> set (map fst kvs). (s, t) \<notin> fst ` set (tracks a)) \<Longrightarrow>
   fold (\<lambda>(segment, l) a. setitem a (segment, t) l) kvs a
     = a\<lparr>tracks := tracks a @ map (\<lambda>(s, l). ((s, t), l)) kvs\<rparr>"
proof (induction kvs arbitrary: a)
  case Nil
  then show ?case by simp
next
  case (Cons kv kvs)
  obtain s l where kv: "kv = (s, l)" by (cases kv)
  have fresh: "(s, t) \<notin> fst ` set (tracks a)" using Cons.prems(3) kv by simp
  have step: "setitem a (s, t) l = a\<lparr>tracks := tracks a @ [((s, t), l)]\<rparr>"
    using Cons.prems(2) kv fresh by (simp add: setitem_def update_fresh)
  have "\<forall>s' \<in> set (map fst kvs). (s', t) \<notin> fst ` set (tracks (setitem a (s, t) l))"
    using Cons.prems(1,3) kv by (auto simp: step)
  with Cons.IH [of "setitem a (s, t) l"] Cons.prems(1,2) kv
  show ?case by (simp add: step)
qed

lemma gen_take_length: "gen_take g n = Inr ls \<Longrightarrow> length ls = n"
  by (cases g) (auto split: if_splits)

lemma to_annotation_tracks:
  assumes "is_timeline xs" and "gen_take g (length xs) = Inr ls"
  shows "Timeline_to_annotation xs u g
           = Inr \<lparr>ann_uri = u, tracks = map (\<lambda>(s, l). ((s, ''_''), l)) (zip xs ls)\<rparr>"
proof -
  have len: "length ls = length xs"
    using assms(2) by (rule gen_take_length)
  have "fold (\<lambda>(segment, l) a. setitem a (segment, ''_'') l) (zip xs ls) (Annotation_empty u)
          = (Annotation_empty u)\<lparr>tracks := tracks (Annotation_empty u)
               @ map (\<lambda>(s, l). ((s, ''_''), l)) (zip xs ls)\<rparr>"
    using assms(1) len by (intro fold_setitem) (simp_all add: is_timeline_def Annotation_empty_def)
  then show ?thesis
    using assms(2) by (simp add: Timeline_to_annotation_def Annotation_empty_def)
qed

lemma to_annotation_StopIteration:
  "gen_take g (length xs) = Inl e \<Longrightarrow> Timeline_to_annotation xs u g = Inl e"
  by (simp add: Timeline_to_annotation_def)

subsection \<open>Labels of the string generator\<close>

lemma distinct_ascii_uppercase: "distinct ascii_uppercase"
  by (simp add: ascii_uppercase_def)

lemma length_ascii_uppercase: "length ascii_uppercase = 26"
  by (simp add: ascii_uppercase_def)

lemma letter_inj:
  "i < 26 \<Longrightarrow> j < 26 \<Longrightarrow> ascii_uppercase ! i = ascii_uppercase ! j \<Longrightarrow> i = j"
  using distinct_ascii_uppercase length_ascii_uppercase
  by (simp add: nth_eq_iff_index_eq)

lemma string_label_nonempty: "string_label n \<noteq> []"
  by (subst string_label.simps) simp

lemma string_label_inj: "string_label m = string_label n \<Longrightarrow> m = n"
proof (induction m arbitrary: n rule: string_label.induct)
  case (1 m)
  show ?case
  proof (cases "m < 26")
    case True
    then have m: "string_label m = [ascii_uppercase ! m]"
      by (subst string_label.simps) simp
    show ?thesis
    proof (cases "n < 26")
      case n: True
      then have "string_label n = [ascii_uppercase ! n]"
        by (subst string_label.simps) simp
      with m "1.prems" True n show ?thesis by (simp add: letter_inj)
    next
      case False
      then have "string_label n = string_label (n div 26 - 1) @ [ascii_uppercase ! (n mod 26)]"
        by (subst string_label.simps) simp
      with m "1.prems" string_label_nonempty [of "n div 26 - 1"] show ?thesis
        by (cases "string_label (n div 26 - 1)") simp_all
    qed
  next
    case False
    then have m: "string_label m = string_label (m div 26 - 1) @ [ascii_uppercase ! (m mod 26)]"
      by (subst string_label.simps) simp
    show ?thesis
    proof (cases "n < 26")
      case True
      then have "string_label n = [ascii_uppercase ! n]"
        by (subst string_label.simps) simp
      with m "1.prems" string_label_nonempty [of "m div 26 - 1"] show ?thesis
        by (cases "string_label (m div 26 - 1)") simp_all
    next
      case n: False
      then have "string_label n = string_label (n div 26 - 1) @ [ascii_uppercase ! (n mod 26)]"
        by (subst string_label.simps) simp
      with m "1.prems" have eq: "string_label (m div 26 - 1) = string_label (n div 26 - 1)"
        and last: "ascii_uppercase ! (m mod 26) = ascii_uppercase ! (n mod 26)"
        by simp_all
      from "1.IH" [OF False eq] have "m div 26 - 1 = n div 26 - 1" .
      moreover from False n have "1 \<le> m div 26" "1 \<le> n div 26" by simp_all
      ultimately have d: "m div 26 = n div 26" by linarith
      from last have r: "m mod 26 = n mod 26" by (intro letter_inj) simp_all
      from d r show ?thesis by (metis div_mult_mod_eq)
    qed
  qed
qed

lemma distinct_string_labels: "distinct (map (\<lambda>i. Str (string_label i)) [0..<n])"
  by (auto simp: distinct_map inj_on_def dest: string_label_inj)

section \<open>Scores: correction and cache\<close>



lemma cached_scores_fail:
  "lookup (cfile w) = None \<Longrightarrow> model (cfile w) = Inl e \<Longrightarrow>
   cached_scores lookup store ev model w = (Inl e, w\<lparr>trace := trace w @ [ev]\<rparr>)"
  by (simp add: cached_scores_def bnd_def get_file_def ret_def extern_def set_file_def Let_def)






section \<open>Candidate segments\<close>

lemma segments_D:
  "SimpleDiarization_segments env hp w = (Inr seg, w') \<Longrightarrow>
   \<exists>split. SimpleDiarization_split env w = (Inr split, w') \<and> seg = remove_tiny hp split"
  by (auto simp: SimpleDiarization_segments_def bnd_def ret_def split: prod.splits sum.splits)

lemma split_is_timeline:
  "SimpleDiarization_split env w = (Inr split, w') \<Longrightarrow> is_timeline split"
  by (auto simp: SimpleDiarization_split_def bnd_def ret_def Timeline_crop_def
        is_timeline_Timeline split: prod.splits sum.splits)

lemma segments_is_timeline:
  "SimpleDiarization_segments env hp w = (Inr seg, w') \<Longrightarrow> is_timeline seg"
  by (auto dest!: segments_D split_is_timeline simp: remove_tiny_def is_timeline_filter)

lemma grows_refl: "grows E w w"
  by (simp add: grows_def)

lemma grows_trans: "grows E w w' \<Longrightarrow> grows E w' w'' \<Longrightarrow> grows E w w''"
  by (auto simp: grows_def)

lemma grows_mono: "grows E w w' \<Longrightarrow> E \<subseteq> F \<Longrightarrow> grows F w w'"
  by (auto simp: grows_def)

lemma cached_scores_grows:
  assumes "cached_scores lookup store ev model w = (r, w')"
    and "\<And>v f. uri (store v f) = uri f" and "\<And>v f. duration (store v f) = duration f"
  shows "grows {ev} w w'"
  using assms
  by (auto simp: cached_scores_def bnd_def get_file_def ret_def extern_def set_file_def
        Let_def grows_def split: option.splits sum.splits)

lemma get_sad_scores_grows: "get_sad_scores m w = (r, w') \<Longrightarrow> grows {Sad_model} w w'"
  unfolding get_sad_scores_def by (erule cached_scores_grows) simp_all

lemma get_scd_scores_grows: "get_scd_scores m w = (r, w') \<Longrightarrow> grows {Scd_model} w w'"
  unfolding get_scd_scores_def by (erule cached_scores_grows) simp_all

lemma get_ovl_scores_grows: "get_ovl_scores m w = (r, w') \<Longrightarrow> grows {Ovl_model} w w'"
  unfolding get_ovl_scores_def by (erule cached_scores_grows) simp_all

lemma split_grows:
  assumes "SimpleDiarization_split env w = (r, w')"
  shows "grows {Sad_model, Scd_model} w w'"
proof -
  obtain r1 w1 where 1: "get_sad_scores (sad env) w = (r1, w1)" by fastforce
  then have g1: "grows {Sad_model, Scd_model} w w1"
    by (auto intro: grows_mono [OF get_sad_scores_grows])
  obtain r2 w2 where 2: "get_scd_scores (scd env) w1 = (r2, w2)" by fastforce
  then have g2: "grows {Sad_model, Scd_model} w1 w2"
    by (auto intro: grows_mono [OF get_scd_scores_grows])
  have "w' = w1 \<or> w' = w2"
    using assms 1 2
    by (auto simp: SimpleDiarization_split_def bnd_def ret_def lift_def
          split: sum.splits prod.splits)
  with g1 g2 show ?thesis by (auto intro: grows_trans)
qed

lemma map_fst_tracks:
  "length ls = length xs \<Longrightarrow>
   map fst (map (\<lambda>(s, l). ((s, t), l)) (zip xs ls)) = map (\<lambda>s. (s, t)) xs"
  by (induction ls xs rule: list_induct2) auto

lemma map_snd_tracks:
  "length ls = length xs \<Longrightarrow> map snd (map (\<lambda>(s, l). ((s, t), l)) (zip xs ls)) = ls"
  by (induction ls xs rule: list_induct2) auto

lemma call_after_segments:
  assumes "SimpleDiarization_segments env hp w = (Inr seg, w')"
  shows "SimpleDiarization_call env hp w
           = SimpleDiarization_cluster env hp
               (Some (case uri (cfile w) of None \<Rightarrow> ''pyannote'' | Some v \<Rightarrow> v)) seg w'"
  using assms by (simp add: SimpleDiarization_call_def bnd_def get_file_def Let_def)

lemma SimpleDiarization_segments_split:
  "SimpleDiarization_split env w = (Inr split, w') \<Longrightarrow>
   SimpleDiarization_segments env hp w = (Inr (remove_tiny hp split), w')"
  by (simp add: SimpleDiarization_segments_def bnd_def ret_def)

text \<open>
  C9. A segment obtained by splitting speech at change points is a candidate exactly
  when its duration exceeds \<open>min(0.1, seg_min_duration)\<close>; with
  \<open>seg_min_duration \<ge> 0\<close> no segment of duration zero is a candidate.
\<close>

theorem candidates_by_duration:
  assumes "SimpleDiarization_split env w = (Inr split, w')"
    and "0 \<le> seg_min_duration hp"
  shows "\<exists>seg. SimpleDiarization_segments env hp w = (Inr seg, w')
           \<and> (\<forall>s. s \<in> set seg \<longleftrightarrow>
                    s \<in> set split \<and> duration_of s > min 0.1 (seg_min_duration hp))
           \<and> (\<forall>s. duration_of s = 0 \<longrightarrow> s \<notin> set seg)"
proof -
  have "\<forall>s. duration_of s = 0 \<longrightarrow> s \<notin> set (remove_tiny hp split)"
    using assms(2) by (auto simp: remove_tiny_def)
  moreover have "\<forall>s. s \<in> set (remove_tiny hp split) \<longleftrightarrow>
      s \<in> set split \<and> duration_of s > min 0.1 (seg_min_duration hp)"
    by (simp add: remove_tiny_def)
  ultimately show ?thesis
    using SimpleDiarization_segments_split [OF assms(1)] by blast
qed

text \<open>On the example, splitting gives four segments; the last one lasts 50 ms and is
  not a candidate.\<close>

lemma split_example:
  "SimpleDiarization_split example_env example_world
     = (Inr [\<lparr>start = 0, end' = 4\<rparr>, \<lparr>start = 4, end' = 7\<rparr>, \<lparr>start = 7, end' = 9\<rparr>,
             \<lparr>start = 9.95, end' = 10\<rparr>],
        example_cached)"
  by (simp add: SimpleDiarization_split_def get_sad_scores_def get_scd_scores_def
        cached_scores_def bnd_def get_file_def ret_def extern_def set_file_def lift_def
        nanmean_def np_exp_def Let_def example_env_def example_world_def example_file_def
        example_cached_def Timeline_crop_def Timeline_support_def Timeline_def co_iter_def
        intersects_def Segment_and_def Segment_or_def Segment_xor_def nonempty_def
        duration_of_def SEGMENT_PRECISION_def seg_key_def)

lemma segments_example:
  "SimpleDiarization_segments example_env (example_hyper d) example_world
     = (Inr [\<lparr>start = 0, end' = 4\<rparr>, \<lparr>start = 4, end' = 7\<rparr>, \<lparr>start = 7, end' = 9\<rparr>],
        example_cached)"
  by (simp add: SimpleDiarization_segments_split [OF split_example] remove_tiny_def
        example_hyper_def duration_of_def nonempty_def SEGMENT_PRECISION_def)

theorem candidates_by_duration_witness:
  "SimpleDiarization_split example_env example_world
     = (Inr [\<lparr>start = 0, end' = 4\<rparr>, \<lparr>start = 4, end' = 7\<rparr>, \<lparr>start = 7, end' = 9\<rparr>,
             \<lparr>start = 9.95, end' = 10\<rparr>], example_cached)
   \<and> 0 \<le> seg_min_duration (example_hyper 5)
   \<and> (\<exists>seg. SimpleDiarization_segments example_env (example_hyper 5) example_world
               = (Inr seg, example_cached)
          \<and> (\<forall>s. s \<in> set seg \<longleftrightarrow>
                s \<in> set [\<lparr>start = 0, end' = 4\<rparr>, \<lparr>start = 4, end' = 7\<rparr>,
                          \<lparr>start = 7, end' = 9\<rparr>, \<lparr>start = 9.95, end' = 10\<rparr>]
                \<and> duration_of s > min 0.1 (seg_min_duration (example_hyper 5)))
          \<and> (\<forall>s. duration_of s = 0 \<longrightarrow> s \<notin> set seg))"
proof -
  have "0 \<le> seg_min_duration (example_hyper 5)"
    by (simp add: example_hyper_def)
  from candidates_by_duration [OF split_example this] split_example this
  show ?thesis by blast
qed

section \<open>Degenerate outputs\<close>

text \<open>
  C6. When no candidate segment is long (duration at least \<open>emb_duration\<close>), the
  invocation calls neither the embedding model nor the clustering: after the segments are
  obtained nothing else happens to the state, and the only calls made are those of the
  speech and change detectors. The annotation returned has exactly one track per candidate
  segment, and the labels of these tracks are pairwise distinct: there are as many labels
  as candidates.
\<close>

theorem no_long_segment:
  assumes "SimpleDiarization_segments env hp w = (Inr seg, w')"
    and "\<forall>s \<in> set seg. duration_of s < emb_duration hp"
  shows "\<exists>annotation. SimpleDiarization_call env hp w = (Inr annotation, w')
           \<and> map fst (tracks annotation) = map (\<lambda>s. (s, ''_'')) seg
           \<and> distinct (map snd (tracks annotation))
           \<and> card (snd ` set (tracks annotation)) = length seg
           \<and> (\<exists>evs. trace w' = trace w @ evs \<and> set evs \<subseteq> {Sad_model, Scd_model})"
proof -
  let ?u = "Some (case uri (cfile w) of None \<Rightarrow> ''pyannote'' | Some v \<Rightarrow> v)"
  let ?ls = "map (\<lambda>i. Str (string_label i)) [0..<length seg]"
  let ?a = "\<lparr>ann_uri = ?u, tracks = map (\<lambda>(s, l). ((s, ''_''), l)) (zip seg ?ls)\<rparr>"
  have tl: "is_timeline seg"
    using assms(1) by (rule segments_is_timeline)
  have none: "filter (\<lambda>s. duration_of s \<ge> emb_duration hp) seg = []"
    using assms(2) by (auto simp: filter_empty_conv)
  have "Timeline_to_annotation seg ?u String_generator = Inr ?a"
    using tl by (rule to_annotation_tracks) simp
  then have "SimpleDiarization_cluster env hp ?u seg w' = (Inr ?a, w')"
    using none by (simp add: SimpleDiarization_cluster_def Timeline_id [OF tl] lift_def)
  then have call: "SimpleDiarization_call env hp w = (Inr ?a, w')"
    by (simp add: call_after_segments [OF assms(1)])
  have fst: "map fst (tracks ?a) = map (\<lambda>s. (s, ''_'')) seg"
    using map_fst_tracks [of ?ls seg "''_''"] by simp
  have snd: "map snd (tracks ?a) = ?ls"
    using map_snd_tracks [of ?ls seg "''_''"] by simp
  have dist: "distinct (map snd (tracks ?a))"
    unfolding snd by (rule distinct_string_labels)
  have "card (snd ` set (tracks ?a)) = card (set (map snd (tracks ?a)))"
    by (simp only: set_map)
  also have "\<dots> = length (map snd (tracks ?a))"
    using dist by (rule distinct_card)
  also have "\<dots> = length seg"
    unfolding snd by simp
  finally have card: "card (snd ` set (tracks ?a)) = length seg" .
  obtain split where "SimpleDiarization_split env w = (Inr split, w')"
    using segments_D [OF assms(1)] by blast
  from split_grows [OF this]
  have "\<exists>evs. trace w' = trace w @ evs \<and> set evs \<subseteq> {Sad_model, Scd_model}"
    by (auto simp: grows_def)
  with call fst dist card show ?thesis by blast
qed

text \<open>The example with \<open>emb_duration = 5\<close>: three candidates, all short.\<close>

lemmas example_eval = example_hyper_def duration_of_def nonempty_def SEGMENT_PRECISION_def
  example_world_def example_file_def example_cached_def

lemma call_example_no_long:
  "SimpleDiarization_call example_env (example_hyper 5) example_world
     = (Inr \<lparr>ann_uri = Some ''pyannote'',
             tracks = [((\<lparr>start = 0, end' = 4\<rparr>, ''_''), Str ''A''),
                       ((\<lparr>start = 4, end' = 7\<rparr>, ''_''), Str ''B''),
                       ((\<lparr>start = 7, end' = 9\<rparr>, ''_''), Str ''C'')]\<rparr>,
        example_cached)"
  unfolding call_after_segments [OF segments_example]
  by (simp add: SimpleDiarization_cluster_def
        Timeline_to_annotation_def Timeline_def seg_key_def setitem_def Annotation_empty_def
        lift_def string_label.simps ascii_uppercase_def example_eval)

theorem no_long_segment_witness:
  "SimpleDiarization_segments example_env (example_hyper 5) example_world
     = (Inr [\<lparr>start = 0, end' = 4\<rparr>, \<lparr>start = 4, end' = 7\<rparr>, \<lparr>start = 7, end' = 9\<rparr>],
        example_cached)
   \<and> duration_of \<lparr>start = 0, end' = 4\<rparr> < emb_duration (example_hyper 5)
   \<and> duration_of \<lparr>start = 4, end' = 7\<rparr> < emb_duration (example_hyper 5)
   \<and> duration_of \<lparr>start = 7, end' = 9\<rparr> < emb_duration (example_hyper 5)
   \<and> (\<exists>annotation.
         SimpleDiarization_call example_env (example_hyper 5) example_world
           = (Inr annotation, example_cached)
         \<and> tracks annotation = [((\<lparr>start = 0, end' = 4\<rparr>, ''_''), Str ''A''),
                                ((\<lparr>start = 4, end' = 7\<rparr>, ''_''), Str ''B''),
                                ((\<lparr>start = 7, end' = 9\<rparr>, ''_''), Str ''C'')]
         \<and> distinct (map snd (tracks annotation))
         \<and> card (snd ` set (tracks annotation)) = 3)
   \<and> trace example_cached = trace example_world @ [Sad_model, Scd_model]"
proof -
  have short: "\<forall>s \<in> set [\<lparr>start = 0, end' = 4\<rparr>, \<lparr>start = 4, end' = 7\<rparr>, \<lparr>start = 7, end' = 9\<rparr>].
      duration_of s < emb_duration (example_hyper 5)"
    by (simp add: example_eval)
  from no_long_segment [OF segments_example short] call_example_no_long
  have "\<exists>annotation.
         SimpleDiarization_call example_env (example_hyper 5) example_world
           = (Inr annotation, example_cached)
         \<and> tracks annotation = [((\<lparr>start = 0, end' = 4\<rparr>, ''_''), Str ''A''),
                                ((\<lparr>start = 4, end' = 7\<rparr>, ''_''), Str ''B''),
                                ((\<lparr>start = 7, end' = 9\<rparr>, ''_''), Str ''C'')]
         \<and> distinct (map snd (tracks annotation))
         \<and> card (snd ` set (tracks annotation)) = 3"
    by auto
  with segments_example [of 5] short show ?thesis
    by (simp add: example_world_def example_cached_def)
qed

lemma zip_replicate_tracks:
  "map (\<lambda>(s, l). ((s, t), l)) (zip xs (replicate (length xs) c)) = map (\<lambda>s. ((s, t), c)) xs"
  by (induction xs) auto

text \<open>
  C7. When exactly one candidate segment is long, the invocation calls neither the
  embedding model nor the clustering, and every candidate segment, long or short, gets the
  label \<open>"A"\<close> on its one track.
\<close>

theorem one_long_segment:
  assumes "SimpleDiarization_segments env hp w = (Inr seg, w')"
    and "length (filter (\<lambda>s. duration_of s \<ge> emb_duration hp) seg) = 1"
  shows "\<exists>annotation. SimpleDiarization_call env hp w = (Inr annotation, w')
           \<and> tracks annotation = map (\<lambda>s. ((s, ''_''), Str ''A'')) seg
           \<and> (\<exists>evs. trace w' = trace w @ evs \<and> set evs \<subseteq> {Sad_model, Scd_model})"
proof -
  let ?u = "Some (case uri (cfile w) of None \<Rightarrow> ''pyannote'' | Some v \<Rightarrow> v)"
  let ?a = "\<lparr>ann_uri = ?u, tracks = map (\<lambda>s. ((s, ''_''), Str ''A'')) seg\<rparr>"
  have tl: "is_timeline seg"
    using assms(1) by (rule segments_is_timeline)
  have ne: "filter (\<lambda>s. duration_of s \<ge> emb_duration hp) seg \<noteq> []"
    using assms(2) by auto
  have "Timeline_to_annotation seg ?u (Constant (Str ''A''))
          = Inr \<lparr>ann_uri = ?u, tracks = map (\<lambda>(s, l). ((s, ''_''), l))
                   (zip seg (replicate (length seg) (Str ''A'')))\<rparr>"
    using tl by (rule to_annotation_tracks) simp
  then have "Timeline_to_annotation seg ?u (Constant (Str ''A'')) = Inr ?a"
    by (simp only: zip_replicate_tracks)
  then have "SimpleDiarization_cluster env hp ?u seg w' = (Inr ?a, w')"
    using assms(2) ne
    by (simp add: SimpleDiarization_cluster_def Timeline_id [OF tl] lift_def Let_def)
  then have call: "SimpleDiarization_call env hp w = (Inr ?a, w')"
    by (simp add: call_after_segments [OF assms(1)])
  obtain split where "SimpleDiarization_split env w = (Inr split, w')"
    using segments_D [OF assms(1)] by blast
  from split_grows [OF this]
  have "\<exists>evs. trace w' = trace w @ evs \<and> set evs \<subseteq> {Sad_model, Scd_model}"
    by (auto simp: grows_def)
  with call show ?thesis by simp
qed

text \<open>The example with \<open>emb_duration = 3.5\<close>: only the first segment is long.\<close>

theorem one_long_segment_witness:
  "SimpleDiarization_segments example_env (example_hyper 3.5) example_world
     = (Inr [\<lparr>start = 0, end' = 4\<rparr>, \<lparr>start = 4, end' = 7\<rparr>, \<lparr>start = 7, end' = 9\<rparr>],
        example_cached)
   \<and> length (filter (\<lambda>s. duration_of s \<ge> emb_duration (example_hyper 3.5))
        [\<lparr>start = 0, end' = 4\<rparr>, \<lparr>start = 4, end' = 7\<rparr>, \<lparr>start = 7, end' = 9\<rparr>]) = 1
   \<and> (\<exists>annotation.
         SimpleDiarization_call example_env (example_hyper 3.5) example_world
           = (Inr annotation, example_cached)
         \<and> tracks annotation = [((\<lparr>start = 0, end' = 4\<rparr>, ''_''), Str ''A''),
                                ((\<lparr>start = 4, end' = 7\<rparr>, ''_''), Str ''A''),
                                ((\<lparr>start = 7, end' = 9\<rparr>, ''_''), Str ''A'')])
   \<and> trace example_cached = trace example_world @ [Sad_model, Scd_model]"
proof -
  have one: "length (filter (\<lambda>s. duration_of s \<ge> emb_duration (example_hyper 3.5))
        [\<lparr>start = 0, end' = 4\<rparr>, \<lparr>start = 4, end' = 7\<rparr>, \<lparr>start = 7, end' = 9\<rparr>]) = 1"
    by (simp add: example_eval)
  from one_long_segment [OF segments_example one]
  have "\<exists>annotation.
         SimpleDiarization_call example_env (example_hyper 3.5) example_world
           = (Inr annotation, example_cached)
         \<and> tracks annotation = [((\<lparr>start = 0, end' = 4\<rparr>, ''_''), Str ''A''),
                                ((\<lparr>start = 4, end' = 7\<rparr>, ''_''), Str ''A''),
                                ((\<lparr>start = 7, end' = 9\<rparr>, ''_''), Str ''A'')]"
    by auto
  with segments_example [of "3.5"] one show ?thesis
    by (simp add: example_world_def example_cached_def)
qed

section \<open>The nearest long segment\<close>

subsection \<open>The first index of a least entry\<close>

lemma argmin_from_spec:
  assumes "pos < length pre" and "pre ! pos = best"
    and "\<forall>k < length pre. best \<le> pre ! k" and "\<forall>k < pos. best < pre ! k"
  shows "argmin_from best pos (length pre) xs < length (pre @ xs)
       \<and> (\<forall>k < length (pre @ xs). (pre @ xs) ! argmin_from best pos (length pre) xs \<le> (pre @ xs) ! k)
       \<and> (\<forall>k < argmin_from best pos (length pre) xs.
             (pre @ xs) ! argmin_from best pos (length pre) xs < (pre @ xs) ! k)"
  using assms
proof (induction xs arbitrary: pre pos best)
  case Nil
  then show ?case by simp
next
  case (Cons x xs)
  show ?case
  proof (cases "x < best")
    case True
    have "argmin_from x (length pre) (length (pre @ [x])) xs < length ((pre @ [x]) @ xs)
       \<and> (\<forall>k < length ((pre @ [x]) @ xs).
             ((pre @ [x]) @ xs) ! argmin_from x (length pre) (length (pre @ [x])) xs
               \<le> ((pre @ [x]) @ xs) ! k)
       \<and> (\<forall>k < argmin_from x (length pre) (length (pre @ [x])) xs.
             ((pre @ [x]) @ xs) ! argmin_from x (length pre) (length (pre @ [x])) xs
               < ((pre @ [x]) @ xs) ! k)"
    proof (rule Cons.IH)
      show "length pre < length (pre @ [x])" by simp
      show "(pre @ [x]) ! length pre = x" by simp
      show "\<forall>k < length (pre @ [x]). x \<le> (pre @ [x]) ! k"
        using True Cons.prems(3) by (auto simp: nth_append less_Suc_eq intro: less_imp_le order_trans)
      show "\<forall>k < length pre. x < (pre @ [x]) ! k"
        using True Cons.prems(3) by (auto simp: nth_append intro: less_le_trans)
    qed
    with True show ?thesis by simp
  next
    case False
    have "argmin_from best pos (length (pre @ [x])) xs < length ((pre @ [x]) @ xs)
       \<and> (\<forall>k < length ((pre @ [x]) @ xs).
             ((pre @ [x]) @ xs) ! argmin_from best pos (length (pre @ [x])) xs
               \<le> ((pre @ [x]) @ xs) ! k)
       \<and> (\<forall>k < argmin_from best pos (length (pre @ [x])) xs.
             ((pre @ [x]) @ xs) ! argmin_from best pos (length (pre @ [x])) xs
               < ((pre @ [x]) @ xs) ! k)"
    proof (rule Cons.IH)
      show "pos < length (pre @ [x])" using Cons.prems(1) by simp
      show "(pre @ [x]) ! pos = best" using Cons.prems(1,2) by (simp add: nth_append)
      show "\<forall>k < length (pre @ [x]). best \<le> (pre @ [x]) ! k"
        using False Cons.prems(3) by (auto simp: nth_append less_Suc_eq)
      show "\<forall>k < pos. best < (pre @ [x]) ! k"
        using Cons.prems(1,4) by (auto simp: nth_append)
    qed
    with False show ?thesis by simp
  qed
qed

lemma argmin_spec:
  assumes "xs \<noteq> []"
  shows "argmin xs < length xs \<and> (\<forall>k < length xs. xs ! argmin xs \<le> xs ! k)
       \<and> (\<forall>k < argmin xs. xs ! argmin xs < xs ! k)"
proof -
  obtain x rest where xs: "xs = x # rest" using assms by (cases xs) auto
  have "argmin_from x 0 (length [x]) rest < length ([x] @ rest)
       \<and> (\<forall>k < length ([x] @ rest). ([x] @ rest) ! argmin_from x 0 (length [x]) rest \<le> ([x] @ rest) ! k)
       \<and> (\<forall>k < argmin_from x 0 (length [x]) rest.
             ([x] @ rest) ! argmin_from x 0 (length [x]) rest < ([x] @ rest) ! k)"
    by (rule argmin_from_spec) simp_all
  then show ?thesis by (simp add: xs argmin_def)
qed

subsection \<open>Embedding extraction leaves the file alone\<close>

lemma crops_only_refl: "crops_only w w"
  by (simp add: crops_only_def)

lemma crops_only_trans: "crops_only w w' \<Longrightarrow> crops_only w' w'' \<Longrightarrow> crops_only w w''"
  by (auto simp: crops_only_def)

lemma get_embedding_cases:
  obtains (ok) x where "emb_crop env (cfile w) segment = Inr x"
      "get_embedding env segment w
         = (Inr (np_mean env x), w\<lparr>trace := trace w @ [Emb_crop segment]\<rparr>)"
    | (other) e where "emb_crop env (cfile w) segment = Inl e" "e \<noteq> RuntimeError"
      "get_embedding env segment w = (Inl e, w\<lparr>trace := trace w @ [Emb_crop segment]\<rparr>)"
    | (no_extent) e where "emb_crop env (cfile w) segment = Inl RuntimeError"
      "extended_segment (cfile w) segment = Inl e"
      "get_embedding env segment w = (Inl e, w\<lparr>trace := trace w @ [Emb_crop segment]\<rparr>)"
    | (retry) x where "emb_crop env (cfile w) segment = Inl RuntimeError"
      "extended_segment (cfile w) segment = Inr x"
      "get_embedding env segment w
         = (map_sum id (np_mean env) (emb_crop env (cfile w) x),
            w\<lparr>trace := trace w @ [Emb_crop segment, Emb_crop x]\<rparr>)"
proof (cases "emb_crop env (cfile w) segment")
  case (Inr x)
  with get_embedding_first_ok [OF Inr] ok show ?thesis by blast
next
  case (Inl e)
  show ?thesis
  proof (cases "e = RuntimeError")
    case False
    with Inl get_embedding_first_other [OF Inl False] other show ?thesis by blast
  next
    case True
    show ?thesis
    proof (cases "extended_segment (cfile w) segment")
      case (Inl e')
      with \<open>emb_crop env (cfile w) segment = Inl e\<close> True
        get_embedding_retry_KeyError [of env w segment e'] no_extent
      show ?thesis by blast
    next
      case (Inr x)
      with \<open>emb_crop env (cfile w) segment = Inl e\<close> True
        get_embedding_retry [of env w segment x] retry
      show ?thesis by blast
    qed
  qed
qed

lemma get_embedding_crops_only: "crops_only w (snd (get_embedding env segment w))"
  by (cases rule: get_embedding_cases [of env w segment]) (auto simp: crops_only_def)

lemma get_embedding_cong:
  assumes "cfile w1 = cfile w2"
  shows "fst (get_embedding env segment w1) = fst (get_embedding env segment w2)"
  by (cases rule: get_embedding_cases [of env w1 segment];
      cases rule: get_embedding_cases [of env w2 segment])
     (simp_all add: assms [symmetric])

lemma mapM_get_embedding_Inr:
  assumes "mapM (get_embedding env) segs w = (Inr es, w')"
  shows "length es = length segs \<and> crops_only w w'
       \<and> (\<forall>k < length segs. fst (get_embedding env (segs ! k) w) = Inr (es ! k))"
  using assms
proof (induction segs arbitrary: w es)
  case Nil
  then show ?case by (simp add: ret_def crops_only_refl)
next
  case (Cons s segs)
  from Cons.prems obtain y w1 ys where
    1: "get_embedding env s w = (Inr y, w1)" and
    2: "mapM (get_embedding env) segs w1 = (Inr ys, w')" and es: "es = y # ys"
    by (auto simp: bnd_def ret_def split: prod.splits sum.splits)
  have c1: "crops_only w w1"
    using get_embedding_crops_only [of w env s] 1 by simp
  from Cons.IH [OF 2] have len: "length ys = length segs" and c2: "crops_only w1 w'"
    and nth: "\<forall>k < length segs. fst (get_embedding env (segs ! k) w1) = Inr (ys ! k)"
    by simp_all
  have "cfile w1 = cfile w" using c1 by (simp add: crops_only_def)
  then have "\<forall>k < length segs. fst (get_embedding env (segs ! k) w) = Inr (ys ! k)"
    using nth get_embedding_cong [of w1 w env] by simp
  with 1 len es crops_only_trans [OF c1 c2] show ?case
    by (auto simp: nth_Cons split: nat.splits)
qed

subsection \<open>Labels after the update\<close>

lemma map_add_upd_left: "m(k \<mapsto> v) ++ n = m ++ ([k \<mapsto> v] ++ n)"
  by (rule ext) (simp add: map_add_def split: option.splits)

lemma map_of_fold_setitem:
  "list_all (\<lambda>(key, l). nonempty (fst key)) kvs \<Longrightarrow>
   map_of (tracks (fold (\<lambda>(key, l) r. setitem r key l) kvs a))
     = map_of (tracks a) ++ map_of (rev kvs)"
proof (induction kvs arbitrary: a)
  case Nil
  then show ?case by simp
next
  case (Cons kv kvs)
  obtain key l where kv: "kv = (key, l)" by (cases kv)
  have step: "map_of (tracks (setitem a key l)) = (map_of (tracks a))(key \<mapsto> l)"
    using Cons.prems kv by (simp add: setitem_def update_conv')
  have "map_of (tracks (fold (\<lambda>(key, l) r. setitem r key l) kvs (setitem a key l)))
          = map_of (tracks (setitem a key l)) ++ map_of (rev kvs)"
    using Cons.prems by (intro Cons.IH) simp
  then have "map_of (tracks (fold (\<lambda>(key, l) r. setitem r key l) (kv # kvs) a))
          = (map_of (tracks a))(key \<mapsto> l) ++ map_of (rev kvs)"
    by (simp add: kv step)
  also have "\<dots> = map_of (tracks a) ++ ([key \<mapsto> l] ++ map_of (rev kvs))"
    by (rule map_add_upd_left)
  also have "[key \<mapsto> l] ++ map_of (rev kvs) = map_of (rev (kv # kvs))"
    by (simp add: kv)
  finally show ?case .
qed

lemma map_of_Annotation_update:
  "list_all (\<lambda>(key, l). nonempty (fst key)) (tracks other) \<Longrightarrow>
   map_of (tracks (Annotation_update a other))
     = map_of (tracks a) ++ map_of (rev (tracks other))"
  unfolding Annotation_update_def by (rule map_of_fold_setitem)

lemma column_cdist:
  "j < length XB \<Longrightarrow> column (cdist metric XA XB) j = map (\<lambda>a. metric a (XB ! j)) XA"
  by (simp add: column_def cdist_def)

lemma assign_short_spec:
  assumes "assign_short metric cluster_long emb_long emb_shrt = Inr cluster_shrt"
    and "emb_long \<noteq> []"
  shows "length cluster_shrt = length emb_shrt
       \<and> (\<forall>j < length emb_shrt.
             argmin (map (\<lambda>a. metric a (emb_shrt ! j)) emb_long) < length cluster_long
           \<and> cluster_shrt ! j
               = cluster_long ! argmin (map (\<lambda>a. metric a (emb_shrt ! j)) emb_long))"
proof -
  obtain a rest where el: "emb_long = a # rest" using assms(2) by (cases emb_long) auto
  let ?M = "cdist metric emb_long emb_shrt"
  let ?ix = "map (\<lambda>j. argmin (column ?M j)) [0..<length emb_shrt]"
  have am: "np_argmin_axis0 ?M = Inr ?ix"
    by (simp add: np_argmin_axis0_def el cdist_def)
  with assms(1) have take: "np_take cluster_long ?ix = Inr cluster_shrt"
    by (simp add: assign_short_def bindE_def)
  then have all: "\<forall>i \<in> set ?ix. i < length cluster_long"
    and cs: "cluster_shrt = map (\<lambda>i. cluster_long ! i) ?ix"
    by (auto simp: np_take_def split: if_splits)
  have len: "length cluster_shrt = length emb_shrt"
    by (simp add: cs)
  have "argmin (map (\<lambda>a. metric a (emb_shrt ! j)) emb_long) < length cluster_long
      \<and> cluster_shrt ! j = cluster_long ! argmin (map (\<lambda>a. metric a (emb_shrt ! j)) emb_long)"
    if j: "j < length emb_shrt" for j
  proof -
    have "?ix ! j = argmin (map (\<lambda>a. metric a (emb_shrt ! j)) emb_long)"
      using j by (simp add: column_cdist)
    moreover have "?ix ! j \<in> set ?ix" using j by (intro nth_mem) simp
    moreover have "cluster_shrt ! j = cluster_long ! (?ix ! j)"
      using j unfolding cs by (subst nth_map) simp_all
    ultimately show ?thesis using all by metis
  qed
  with len show ?thesis by blast
qed

lemma zip_take_right: "zip xs (take (length xs) ls) = zip xs ls"
proof (induction xs arbitrary: ls)
  case Nil
  then show ?case by simp
next
  case (Cons x xs)
  then show ?case by (cases ls) simp_all
qed

lemma to_annotation_Iter:
  assumes "is_timeline xs" and "Timeline_to_annotation xs u (Iter ls) = Inr a"
  shows "length xs \<le> length ls
       \<and> tracks a = map (\<lambda>(s, l). ((s, ''_''), l)) (zip xs ls)"
proof -
  have le: "length xs \<le> length ls"
    using assms(2) by (auto simp: Timeline_to_annotation_def split: if_splits)
  then have "gen_take (Iter ls) (length xs) = Inr (take (length xs) ls)" by simp
  from to_annotation_tracks [OF assms(1) this, of u] assms(2)
  have "tracks a = map (\<lambda>(s, l). ((s, ''_''), l)) (zip xs (take (length xs) ls))"
    by auto
  moreover have "zip xs (take (length xs) ls) = zip xs ls"
    by (rule zip_take_right)
  ultimately show ?thesis using le by simp
qed

lemma map_of_tracks_nth:
  assumes "distinct xs" and "k < length xs" and "length xs \<le> length ls"
  shows "map_of (map (\<lambda>(s, l). ((s, t), l)) (zip xs ls)) (xs ! k, t) = Some (ls ! k)"
proof -
  have d: "distinct (map fst (map (\<lambda>(s, l). ((s, t), l)) (zip xs ls)))"
    using assms(1,3)
    by (simp add: comp_def case_prod_unfold distinct_map inj_on_def distinct_zipI1)
       (auto simp: in_set_zip nth_eq_iff_index_eq)
  have "((xs ! k, t), ls ! k) \<in> set (map (\<lambda>(s, l). ((s, t), l)) (zip xs ls))"
    using assms(2,3) by (force simp: in_set_zip)
  with d show ?thesis by (rule map_of_is_SomeI)
qed

lemma map_of_tracks_None:
  assumes "x \<notin> set xs"
  shows "map_of (map (\<lambda>(s, l). ((s, t), l)) (zip xs ls)) (x, t) = None"
  using assms by (force simp: map_of_eq_None_iff dest: set_zip_leftD)

lemma map_of_rev_distinct: "distinct (map fst xs) \<Longrightarrow> map_of (rev xs) = map_of xs"
  by (subst map_of_inject_set) (simp_all flip: rev_map)

lemma list_all_tracks_nonempty:
  "is_timeline xs \<Longrightarrow>
   list_all (\<lambda>(key, l). nonempty (fst key)) (map (\<lambda>(s, l). ((s, t), l)) (zip xs ls))"
  by (auto simp: is_timeline_def list_all_iff dest: set_zip_leftD)

text \<open>
  C5. In an invocation that returns an annotation and has at least two long candidate
  segments, take a short candidate segment \<open>s\<close>. The embeddings extracted for the long
  segments and for \<open>s\<close> exist, and there is a long segment, of index \<open>i\<close>, such that: the
  cosine distance from its embedding to that of \<open>s\<close> is at most the distance from the
  embedding of any long segment, and strictly below the distance from the embedding of
  every long segment of lower index; and the label of \<open>s\<close> in the annotation is the label
  of that long segment.
\<close>

theorem short_segment_nearest_long:
  assumes seg: "SimpleDiarization_segments env hp w = (Inr seg, w1)"
    and call: "SimpleDiarization_call env hp w = (Inr annotation, w')"
    and long: "long = filter (\<lambda>s. duration_of s \<ge> emb_duration hp) seg"
    and two: "2 \<le> length long"
    and s: "s \<in> set seg" and short: "duration_of s < emb_duration hp"
  shows "\<exists>i e es. i < length long
           \<and> fst (get_embedding env s w1) = Inr e
           \<and> length es = length long
           \<and> (\<forall>k < length long. fst (get_embedding env (long ! k) w1) = Inr (es ! k))
           \<and> (\<forall>k < length long. cdist_cosine env (es ! i) e \<le> cdist_cosine env (es ! k) e)
           \<and> (\<forall>k < i. cdist_cosine env (es ! i) e < cdist_cosine env (es ! k) e)
           \<and> map_of (tracks annotation) (s, ''_'') = map_of (tracks annotation) (long ! i, ''_'')
           \<and> map_of (tracks annotation) (s, ''_'') \<noteq> None"
proof -
  let ?u = "Some (case uri (cfile w) of None \<Rightarrow> ''pyannote'' | Some v \<Rightarrow> v)"
  define shrt where "shrt = filter (\<lambda>s. duration_of s < emb_duration hp) seg"
  have tl: "is_timeline seg" using seg by (rule segments_is_timeline)
  have tl_long: "is_timeline long" unfolding long using tl by (rule is_timeline_filter)
  have tl_shrt: "is_timeline shrt" unfolding shrt_def using tl by (rule is_timeline_filter)
  have s_shrt: "s \<in> set shrt" using s short by (simp add: shrt_def)
  then have shrt_ne: "shrt \<noteq> []" by auto
  have long_ne: "long \<noteq> []" "length long \<noteq> 1" using two by auto
  have "SimpleDiarization_cluster env hp ?u seg w1 = (Inr annotation, w')"
    using call by (simp add: call_after_segments [OF seg])
  then obtain emb_long w2 cluster_long emb_shrt cluster_shrt la sa where
    el: "mapM (get_embedding env) long w1 = (Inr emb_long, w2)" and
    es: "mapM (get_embedding env) shrt (w2\<lparr>trace := trace w2 @ [Pool_fcluster (length emb_long)]\<rparr>)
           = (Inr emb_shrt, w')" and
    cs: "assign_short (cdist_cosine env) cluster_long emb_long emb_shrt = Inr cluster_shrt" and
    la: "Timeline_to_annotation (Timeline long) ?u (Iter (map Num cluster_long)) = Inr la" and
    sa: "Timeline_to_annotation (Timeline shrt) ?u (Iter (map Num cluster_shrt)) = Inr sa" and
    ann: "annotation = Annotation_update la sa"
    using long_ne shrt_ne unfolding SimpleDiarization_cluster_def long [symmetric]
      shrt_def [symmetric] Let_def
    by (auto simp: bnd_def lift_def ret_def extern_def split: prod.splits sum.splits)
  from mapM_get_embedding_Inr [OF el]
  have len_el: "length emb_long = length long" and c12: "crops_only w1 w2"
    and nth_el: "\<forall>k < length long. fst (get_embedding env (long ! k) w1) = Inr (emb_long ! k)"
    by simp_all
  let ?w3 = "w2\<lparr>trace := trace w2 @ [Pool_fcluster (length emb_long)]\<rparr>"
  have file3: "cfile ?w3 = cfile w1" using c12 by (simp add: crops_only_def)
  from mapM_get_embedding_Inr [OF es]
  have len_es: "length emb_shrt = length shrt"
    and nth_es': "\<forall>k < length shrt. fst (get_embedding env (shrt ! k) ?w3) = Inr (emb_shrt ! k)"
    by simp_all
  have nth_es: "\<forall>k < length shrt. fst (get_embedding env (shrt ! k) w1) = Inr (emb_shrt ! k)"
    using nth_es' get_embedding_cong [OF file3, of env] by simp
  obtain j where j: "j < length shrt" "shrt ! j = s"
    using s_shrt by (auto simp: in_set_conv_nth)
  define e where "e = emb_shrt ! j"
  define i where "i = argmin (map (\<lambda>a. cdist_cosine env a e) emb_long)"
  have el_ne: "emb_long \<noteq> []" using len_el long_ne by auto
  from assign_short_spec [OF cs el_ne] j len_es
  have len_cs: "length cluster_shrt = length shrt"
    and i_cl: "i < length cluster_long" and cs_j: "cluster_shrt ! j = cluster_long ! i"
    by (simp_all add: i_def e_def)
  let ?d = "map (\<lambda>a. cdist_cosine env a e) emb_long"
  have spec: "i < length ?d \<and> (\<forall>k < length ?d. ?d ! i \<le> ?d ! k) \<and> (\<forall>k < i. ?d ! i < ?d ! k)"
    unfolding i_def using el_ne by (intro argmin_spec) simp
  have i_len: "i < length long"
    using spec by (simp add: len_el)
  have least: "\<forall>k < length long. cdist_cosine env (emb_long ! i) e \<le> cdist_cosine env (emb_long ! k) e"
    using spec i_len by (auto simp: len_el)
  have first: "\<forall>k < i. cdist_cosine env (emb_long ! i) e < cdist_cosine env (emb_long ! k) e"
    using spec i_len by (auto simp: len_el)
  have "Timeline_to_annotation long ?u (Iter (map Num cluster_long)) = Inr la"
    using la by (simp only: Timeline_id [OF tl_long])
  from to_annotation_Iter [OF tl_long this]
  have la_len: "length long \<le> length cluster_long"
    and la_tracks: "tracks la = map (\<lambda>(s, l). ((s, ''_''), l)) (zip long (map Num cluster_long))"
    by simp_all
  have "Timeline_to_annotation shrt ?u (Iter (map Num cluster_shrt)) = Inr sa"
    using sa by (simp only: Timeline_id [OF tl_shrt])
  from to_annotation_Iter [OF tl_shrt this]
  have sa_tracks: "tracks sa = map (\<lambda>(s, l). ((s, ''_''), l)) (zip shrt (map Num cluster_shrt))"
    by simp
  have "map fst (tracks sa) = map (\<lambda>s. (s, ''_'')) shrt"
    unfolding sa_tracks using map_fst_tracks [of "map Num cluster_shrt" shrt "''_''"] len_cs
    by simp
  then have d_sa: "distinct (map fst (tracks sa))"
    using tl_shrt by (simp add: is_timeline_def distinct_map inj_on_def)
  have na: "list_all (\<lambda>(key, l). nonempty (fst key)) (tracks sa)"
    unfolding sa_tracks by (rule list_all_tracks_nonempty [OF tl_shrt])
  have "map_of (tracks annotation) = map_of (tracks la) ++ map_of (rev (tracks sa))"
    unfolding ann using na by (rule map_of_Annotation_update)
  then have m: "map_of (tracks annotation) = map_of (tracks la) ++ map_of (tracks sa)"
    by (simp only: map_of_rev_distinct [OF d_sa])
  have "map_of (tracks sa) (s, ''_'') = Some (Num (cluster_shrt ! j))"
    using map_of_tracks_nth [of shrt j "map Num cluster_shrt" "''_''"] tl_shrt j len_cs
    by (simp add: sa_tracks is_timeline_def)
  then have at_s: "map_of (tracks annotation) (s, ''_'') = Some (Num (cluster_long ! i))"
    by (simp add: m cs_j)
  have "long ! i \<notin> set shrt"
    using i_len nth_mem [of i long] by (auto simp: long shrt_def)
  then have "map_of (tracks sa) (long ! i, ''_'') = None"
    unfolding sa_tracks by (rule map_of_tracks_None)
  moreover have "map_of (tracks la) (long ! i, ''_'') = Some (Num (cluster_long ! i))"
    using map_of_tracks_nth [of long i "map Num cluster_long" "''_''"] tl_long i_len la_len i_cl
    by (simp add: la_tracks is_timeline_def)
  ultimately have at_i: "map_of (tracks annotation) (long ! i, ''_'') = Some (Num (cluster_long ! i))"
    by (simp add: m map_add_def)
  have at_e: "fst (get_embedding env s w1) = Inr e"
    using nth_es j by (auto simp: e_def)
  show ?thesis
    by (rule exI [of _ i], rule exI [of _ e], rule exI [of _ emb_long])
       (simp add: i_len len_el nth_el least first at_s at_i at_e)
qed

text \<open>The example with \<open>emb_duration = 2.5\<close>: two long segments and a short one, whose
  embedding is as far from one as from the other.\<close>

lemma call_example_clustered:
  "SimpleDiarization_call example_env (example_hyper 2.5) example_world
     = (Inr \<lparr>ann_uri = Some ''pyannote'',
             tracks = [((\<lparr>start = 0, end' = 4\<rparr>, ''_''), Num 1),
                       ((\<lparr>start = 4, end' = 7\<rparr>, ''_''), Num 2),
                       ((\<lparr>start = 7, end' = 9\<rparr>, ''_''), Num 1)]\<rparr>,
        example_clustered)"
  unfolding call_after_segments [OF segments_example]
  by (simp add: SimpleDiarization_cluster_def get_embedding_def crop_call_def catch_def
        bnd_def ret_def extern_def lift_def raise_def get_file_def
        assign_short_def bindE_def np_argmin_axis0_def cdist_def column_def argmin_def
        np_take_def cosine_def mean_axis0_def
        Timeline_to_annotation_def Timeline_def seg_key_def setitem_def Annotation_empty_def
        Annotation_update_def example_env_def example_clustered_def example_eval)

theorem short_segment_nearest_long_witness:
  "SimpleDiarization_segments example_env (example_hyper 2.5) example_world
     = (Inr [\<lparr>start = 0, end' = 4\<rparr>, \<lparr>start = 4, end' = 7\<rparr>, \<lparr>start = 7, end' = 9\<rparr>],
        example_cached)
   \<and> SimpleDiarization_call example_env (example_hyper 2.5) example_world
     = (Inr \<lparr>ann_uri = Some ''pyannote'',
             tracks = [((\<lparr>start = 0, end' = 4\<rparr>, ''_''), Num 1),
                       ((\<lparr>start = 4, end' = 7\<rparr>, ''_''), Num 2),
                       ((\<lparr>start = 7, end' = 9\<rparr>, ''_''), Num 1)]\<rparr>,
        example_clustered)
   \<and> [\<lparr>start = 0, end' = 4\<rparr>, \<lparr>start = 4, end' = 7\<rparr>]
       = filter (\<lambda>s. duration_of s \<ge> emb_duration (example_hyper 2.5))
           [\<lparr>start = 0, end' = 4\<rparr>, \<lparr>start = 4, end' = 7\<rparr>, \<lparr>start = 7, end' = 9\<rparr>]
   \<and> duration_of \<lparr>start = 7, end' = 9\<rparr> < emb_duration (example_hyper 2.5)
   \<and> fst (get_embedding example_env \<lparr>start = 0, end' = 4\<rparr> example_cached) = Inr [1, 0]
   \<and> fst (get_embedding example_env \<lparr>start = 4, end' = 7\<rparr> example_cached) = Inr [0, 1]
   \<and> fst (get_embedding example_env \<lparr>start = 7, end' = 9\<rparr> example_cached) = Inr [1, 1]
   \<and> cosine [1, 0] [1, 1] = cosine [0, 1] [1, 1]
   \<and> (\<exists>i e es. i < length [\<lparr>start = 0, end' = 4\<rparr>, \<lparr>start = 4, end' = 7\<rparr>]
         \<and> fst (get_embedding example_env \<lparr>start = 7, end' = 9\<rparr> example_cached) = Inr e
         \<and> length es = length [\<lparr>start = 0, end' = 4\<rparr>, \<lparr>start = 4, end' = 7\<rparr>]
         \<and> (\<forall>k < length [\<lparr>start = 0, end' = 4\<rparr>, \<lparr>start = 4, end' = 7\<rparr>].
               fst (get_embedding example_env
                ([\<lparr>start = 0, end' = 4\<rparr>, \<lparr>start = 4, end' = 7\<rparr>] ! k) example_cached)
              = Inr (es ! k))
         \<and> (\<forall>k < length [\<lparr>start = 0, end' = 4\<rparr>, \<lparr>start = 4, end' = 7\<rparr>].
               cdist_cosine example_env (es ! i) e \<le> cdist_cosine example_env (es ! k) e)
         \<and> (\<forall>k < i. cdist_cosine example_env (es ! i) e < cdist_cosine example_env (es ! k) e)
         \<and> map_of [((\<lparr>start = 0, end' = 4\<rparr>, ''_''), Num 1),
                    ((\<lparr>start = 4, end' = 7\<rparr>, ''_''), Num 2),
                    ((\<lparr>start = 7, end' = 9\<rparr>, ''_''), Num 1)] (\<lparr>start = 7, end' = 9\<rparr>, ''_'')
             = map_of [((\<lparr>start = 0, end' = 4\<rparr>, ''_''), Num 1),
                    ((\<lparr>start = 4, end' = 7\<rparr>, ''_''), Num 2),
                    ((\<lparr>start = 7, end' = 9\<rparr>, ''_''), Num 1)]
                 ([\<lparr>start = 0, end' = 4\<rparr>, \<lparr>start = 4, end' = 7\<rparr>] ! i, ''_'')
         \<and> map_of [((\<lparr>start = 0, end' = 4\<rparr>, ''_''), Num 1),
                    ((\<lparr>start = 4, end' = 7\<rparr>, ''_''), Num 2),
                    ((\<lparr>start = 7, end' = 9\<rparr>, ''_''), Num 1)] (\<lparr>start = 7, end' = 9\<rparr>, ''_'')
             \<noteq> None)"
proof -
  have long: "[\<lparr>start = 0, end' = 4\<rparr>, \<lparr>start = 4, end' = 7\<rparr>]
       = filter (\<lambda>s. duration_of s \<ge> emb_duration (example_hyper 2.5))
           [\<lparr>start = 0, end' = 4\<rparr>, \<lparr>start = 4, end' = 7\<rparr>, \<lparr>start = 7, end' = 9\<rparr>]"
    by (simp add: example_eval)
  have two: "2 \<le> length [\<lparr>start = 0, end' = 4\<rparr>, \<lparr>start = 4, end' = 7\<rparr>]"
    by simp
  have mem: "\<lparr>start = 7, end' = 9\<rparr>
      \<in> set [\<lparr>start = 0, end' = 4\<rparr>, \<lparr>start = 4, end' = 7\<rparr>, \<lparr>start = 7, end' = 9\<rparr>]"
    by simp
  have short: "duration_of \<lparr>start = 7, end' = 9\<rparr> < emb_duration (example_hyper 2.5)"
    by (simp add: example_eval)
  have emb: "fst (get_embedding example_env \<lparr>start = 0, end' = 4\<rparr> example_cached) = Inr [1, 0]"
    "fst (get_embedding example_env \<lparr>start = 4, end' = 7\<rparr> example_cached) = Inr [0, 1]"
    "fst (get_embedding example_env \<lparr>start = 7, end' = 9\<rparr> example_cached) = Inr [1, 1]"
    by (simp_all add: get_embedding_def crop_call_def catch_def bnd_def ret_def extern_def
          mean_axis0_def column_def example_env_def)
  have tie: "cosine [1, 0] [1, 1] = cosine [0, 1] [1, 1]"
    by (simp add: cosine_def)
  note nearest = short_segment_nearest_long
      [OF segments_example call_example_clustered long two mem short, simplified Annotation.simps]
  from segments_example [of "2.5"] call_example_clustered long short emb tie nearest
  show ?thesis by blast
qed

section \<open>Failures of the embedding model\<close>

lemma mapM_crops_only: "crops_only w (snd (mapM (get_embedding env) segs w))"
proof (induction segs arbitrary: w)
  case Nil
  then show ?case by (simp add: ret_def crops_only_refl)
next
  case (Cons s segs)
  obtain r w1 where 1: "get_embedding env s w = (r, w1)" by fastforce
  have c1: "crops_only w w1"
    using get_embedding_crops_only [of w env s] 1 by simp
  show ?case
  proof (cases r)
    case (Inl e)
    with 1 c1 show ?thesis by (simp add: bnd_def)
  next
    case (Inr y)
    obtain r2 w2 where 2: "mapM (get_embedding env) segs w1 = (r2, w2)" by fastforce
    have "crops_only w1 w2" using Cons.IH [of w1] 2 by simp
    with c1 have "crops_only w w2" by (rule crops_only_trans)
    with 1 2 Inr show ?thesis by (cases r2) (simp_all add: bnd_def ret_def)
  qed
qed

lemma cached_scores_trace:
  "cached_scores lookup store ev model w = (r, w') \<Longrightarrow>
   trace w' = trace w \<or> trace w' = trace w @ [ev]"
  by (auto simp: cached_scores_def bnd_def get_file_def ret_def extern_def set_file_def
        Let_def split: option.splits sum.splits)

lemma split_trace:
  assumes "SimpleDiarization_split env w = (r, w')"
  shows "\<exists>a b. trace w' = trace w @ a @ b
           \<and> (a = [] \<or> a = [Sad_model]) \<and> (b = [] \<or> b = [Scd_model])"
proof -
  obtain r1 w1 where 1: "get_sad_scores (sad env) w = (r1, w1)" by fastforce
  then have t1: "trace w1 = trace w \<or> trace w1 = trace w @ [Sad_model]"
    unfolding get_sad_scores_def by (rule cached_scores_trace)
  obtain r2 w2 where 2: "get_scd_scores (scd env) w1 = (r2, w2)" by fastforce
  then have t2: "trace w2 = trace w1 \<or> trace w2 = trace w1 @ [Scd_model]"
    unfolding get_scd_scores_def by (rule cached_scores_trace)
  have "w' = w1 \<or> w' = w2"
    using assms 1 2
    by (auto simp: SimpleDiarization_split_def bnd_def ret_def lift_def
          split: sum.splits prod.splits)
  then show ?thesis
  proof
    assume "w' = w1"
    with t1 have "trace w' = trace w @ [] @ [] \<or> trace w' = trace w @ [Sad_model] @ []"
      by simp
    then show ?thesis by blast
  next
    assume "w' = w2"
    with t1 t2 have "trace w' = trace w @ [] @ [] \<or> trace w' = trace w @ [Sad_model] @ []
        \<or> trace w' = trace w @ [] @ [Scd_model] \<or> trace w' = trace w @ [Sad_model] @ [Scd_model]"
      by auto
    then show ?thesis by blast
  qed
qed

lemma cluster_trace:
  assumes "SimpleDiarization_cluster env hp u seg w = (r, w')"
  shows "\<exists>c p d. trace w' = trace w @ c @ p @ d
           \<and> set c \<subseteq> range Emb_crop \<and> (p = [] \<or> (\<exists>n. p = [Pool_fcluster n]))
           \<and> set d \<subseteq> range Emb_crop"
proof -
  define long where "long = filter (\<lambda>s. duration_of s \<ge> emb_duration hp) seg"
  define shrt where "shrt = filter (\<lambda>s. duration_of s < emb_duration hp) seg"
  obtain r2 w2 where 2: "mapM (get_embedding env) long w = (r2, w2)" by fastforce
  have c2: "crops_only w w2" using mapM_crops_only [of w env long] 2 by simp
  define n where "n = (case r2 of Inr x \<Rightarrow> length x | Inl e \<Rightarrow> 0)"
  define w3 where "w3 = w2\<lparr>trace := trace w2 @ [Pool_fcluster n]\<rparr>"
  obtain r4 w4 where 4: "mapM (get_embedding env) shrt w3 = (r4, w4)" by fastforce
  have c4: "crops_only w3 w4" using mapM_crops_only [of w3 env shrt] 4 by simp
  have "w' = w \<or> w' = w2 \<or> w' = w3 \<or> w' = w4"
    using assms 2 4 unfolding SimpleDiarization_cluster_def long_def [symmetric]
      shrt_def [symmetric] Let_def
    by (auto simp: bnd_def lift_def ret_def extern_def w3_def n_def
          split: sum.splits prod.splits if_splits)
  moreover obtain c where c: "trace w2 = trace w @ c" "set c \<subseteq> range Emb_crop"
    using c2 by (auto simp: crops_only_def)
  moreover obtain d where d: "trace w4 = trace w3 @ d" "set d \<subseteq> range Emb_crop"
    using c4 by (auto simp: crops_only_def)
  moreover have "trace w = trace w @ [] @ [] @ []" by simp
  moreover have "trace w2 = trace w @ c @ [] @ []" using c by simp
  moreover have "trace w3 = trace w @ c @ [Pool_fcluster n] @ []" using c by (simp add: w3_def)
  moreover have "trace w4 = trace w @ c @ [Pool_fcluster n] @ d" using c d by (simp add: w3_def)
  ultimately show ?thesis
    by (metis empty_set empty_subsetI)
qed

lemma call_once:
  assumes "SimpleDiarization_call env hp w = (r, w')"
  shows "\<exists>evs. trace w' = trace w @ evs \<and> once evs"
proof -
  let ?u = "Some (case uri (cfile w) of None \<Rightarrow> ''pyannote'' | Some v \<Rightarrow> v)"
  obtain r0 w0 where 0: "SimpleDiarization_split env w = (r0, w0)" by fastforce
  from split_trace [OF 0] obtain a b where ab: "trace w0 = trace w @ a @ b"
    "a = [] \<or> a = [Sad_model]" "b = [] \<or> b = [Scd_model]" by blast
  show ?thesis
  proof (cases r0)
    case (Inl e)
    with 0 assms have "w' = w0"
      by (simp add: SimpleDiarization_call_def SimpleDiarization_segments_def bnd_def
            get_file_def Let_def)
    with ab have "trace w' = trace w @ (a @ b @ [] @ [] @ [])" by simp
    moreover have "once (a @ b @ [] @ [] @ [])"
      unfolding once_def using ab(2,3) by (intro exI [of _ a] exI [of _ b] exI [of _ "[]"]) simp
    ultimately show ?thesis by blast
  next
    case (Inr split)
    with 0 have seg: "SimpleDiarization_segments env hp w = (Inr (remove_tiny hp split), w0)"
      by (simp add: SimpleDiarization_segments_split)
    with assms have "SimpleDiarization_cluster env hp ?u (remove_tiny hp split) w0 = (r, w')"
      by (simp add: call_after_segments)
    from cluster_trace [OF this] obtain c p d where cpd: "trace w' = trace w0 @ c @ p @ d"
      "set c \<subseteq> range Emb_crop" "p = [] \<or> (\<exists>n. p = [Pool_fcluster n])"
      "set d \<subseteq> range Emb_crop" by blast
    with ab have "trace w' = trace w @ (a @ b @ c @ p @ d)" by simp
    moreover have "once (a @ b @ c @ p @ d)"
      unfolding once_def using ab(2,3) cpd(2,3,4) by blast
    ultimately show ?thesis by blast
  qed
qed

lemma cluster_Inr_embeddings:
  assumes cl: "SimpleDiarization_cluster env hp u seg w1 = (Inr annotation, w')"
    and two: "2 \<le> length (filter (\<lambda>s. duration_of s \<ge> emb_duration hp) seg)"
    and s: "s \<in> set seg"
  shows "\<exists>y. fst (get_embedding env s w1) = Inr y"
proof -
  define long where "long = filter (\<lambda>s. duration_of s \<ge> emb_duration hp) seg"
  define shrt where "shrt = filter (\<lambda>s. duration_of s < emb_duration hp) seg"
  have long_ne: "long \<noteq> []" "length long \<noteq> 1" using two by (auto simp: long_def)
  from cl obtain emb_long w2 where
    el: "mapM (get_embedding env) long w1 = (Inr emb_long, w2)"
    using long_ne unfolding SimpleDiarization_cluster_def long_def [symmetric] Let_def
    by (auto simp: bnd_def split: prod.splits sum.splits)
  from mapM_get_embedding_Inr [OF el]
  have c12: "crops_only w1 w2"
    and nth_el: "\<forall>k < length long. fst (get_embedding env (long ! k) w1) = Inr (emb_long ! k)"
    by simp_all
  show ?thesis
  proof (cases "duration_of s \<ge> emb_duration hp")
    case True
    with s have "s \<in> set long" by (simp add: long_def)
    then obtain k where "k < length long" "long ! k = s" by (auto simp: in_set_conv_nth)
    with nth_el show ?thesis by auto
  next
    case False
    with s have s_shrt: "s \<in> set shrt" by (simp add: shrt_def)
    then have shrt_ne: "shrt \<noteq> []" by auto
    let ?w3 = "w2\<lparr>trace := trace w2 @ [Pool_fcluster (length emb_long)]\<rparr>"
    from cl el obtain emb_shrt w4 where
      es: "mapM (get_embedding env) shrt ?w3 = (Inr emb_shrt, w4)"
      using long_ne shrt_ne unfolding SimpleDiarization_cluster_def long_def [symmetric]
        shrt_def [symmetric] Let_def
      by (auto simp: bnd_def extern_def split: prod.splits sum.splits)
    have file3: "cfile ?w3 = cfile w1" using c12 by (simp add: crops_only_def)
    from mapM_get_embedding_Inr [OF es]
    have "\<forall>k < length shrt. fst (get_embedding env (shrt ! k) ?w3) = Inr (emb_shrt ! k)"
      by simp
    then have nth_es: "\<forall>k < length shrt. fst (get_embedding env (shrt ! k) w1) = Inr (emb_shrt ! k)"
      using get_embedding_cong [OF file3, of env] by simp
    obtain j where "j < length shrt" "shrt ! j = s"
      using s_shrt by (auto simp: in_set_conv_nth)
    with nth_es show ?thesis by auto
  qed
qed

lemma get_embedding_at_most_two:
  "\<exists>evs. snd (get_embedding env segment w) = w\<lparr>trace := trace w @ evs\<rparr>
         \<and> length evs \<le> 2 \<and> set evs \<subseteq> range Emb_crop"
proof (cases rule: get_embedding_cases [of env w segment])
  case (ok x)
  then show ?thesis by (intro exI [of _ "[Emb_crop segment]"]) simp
next
  case (other e)
  then show ?thesis by (intro exI [of _ "[Emb_crop segment]"]) simp
next
  case (no_extent e)
  then show ?thesis by (intro exI [of _ "[Emb_crop segment]"]) simp
next
  case (retry x)
  then show ?thesis by (intro exI [of _ "[Emb_crop segment, Emb_crop x]"]) simp
qed

lemma get_embedding_trace:
  "snd (get_embedding env segment w) = w\<lparr>trace := trace w @ crops_of env (cfile w) segment\<rparr>"
  by (cases rule: get_embedding_cases [of env w segment]) (simp_all add: crops_of_def)

lemma mapM_get_embedding_fail:
  assumes "k < length segs"
    and "\<forall>j < k. \<exists>y. fst (get_embedding env (segs ! j) w) = Inr y"
    and "fst (get_embedding env (segs ! k) w) = Inl e"
  shows "mapM (get_embedding env) segs w
           = (Inl e, w\<lparr>trace := trace w
                @ concat (map (crops_of env (cfile w)) (take (Suc k) segs))\<rparr>)"
  using assms
proof (induction segs arbitrary: k w)
  case Nil
  then show ?case by simp
next
  case (Cons s segs)
  show ?case
  proof (cases k)
    case 0
    with Cons.prems(3) have "get_embedding env s w
        = (Inl e, w\<lparr>trace := trace w @ crops_of env (cfile w) s\<rparr>)"
      using get_embedding_trace [of env s w] by (cases "get_embedding env s w") simp
    with 0 show ?thesis by (simp add: bnd_def)
  next
    case (Suc k')
    from Cons.prems(2) Suc obtain y where y: "fst (get_embedding env s w) = Inr y"
      by fastforce
    define w1 where "w1 = w\<lparr>trace := trace w @ crops_of env (cfile w) s\<rparr>"
    have 1: "get_embedding env s w = (Inr y, w1)"
      using y get_embedding_trace [of env s w] unfolding w1_def
      by (cases "get_embedding env s w") simp
    have f1: "cfile w1 = cfile w" by (simp add: w1_def)
    have "mapM (get_embedding env) segs w1
           = (Inl e, w1\<lparr>trace := trace w1
                @ concat (map (crops_of env (cfile w1)) (take (Suc k') segs))\<rparr>)"
    proof (rule Cons.IH)
      show "k' < length segs" using Cons.prems(1) Suc by simp
      show "\<forall>j < k'. \<exists>y. fst (get_embedding env (segs ! j) w1) = Inr y"
        using Cons.prems(2) Suc get_embedding_cong [OF f1, of env] by fastforce
      show "fst (get_embedding env (segs ! k') w1) = Inl e"
        using Cons.prems(3) Suc get_embedding_cong [OF f1, of env] by simp
    qed
    with 1 Suc show ?thesis by (simp add: bnd_def f1) (simp add: w1_def)
  qed
qed

lemma mapM_get_embedding_trace:
  assumes "mapM (get_embedding env) segs w = (Inr es, w')"
  shows "w' = w\<lparr>trace := trace w @ concat (map (crops_of env (cfile w)) segs)\<rparr>"
  using assms
proof (induction segs arbitrary: w es)
  case Nil
  then show ?case by (simp add: ret_def)
next
  case (Cons s segs)
  from Cons.prems obtain y w1 ys where
    1: "get_embedding env s w = (Inr y, w1)" and
    2: "mapM (get_embedding env) segs w1 = (Inr ys, w')"
    by (auto simp: bnd_def ret_def split: prod.splits sum.splits)
  have w1: "w1 = w\<lparr>trace := trace w @ crops_of env (cfile w) s\<rparr>"
    using 1 get_embedding_trace [of env s w] by simp
  from Cons.IH [OF 2] show ?case by (simp add: w1)
qed

lemma mapM_get_embedding_InrI:
  assumes "length es = length segs"
    and "\<forall>j < length segs. fst (get_embedding env (segs ! j) w) = Inr (es ! j)"
  shows "mapM (get_embedding env) segs w
           = (Inr es, w\<lparr>trace := trace w @ concat (map (crops_of env (cfile w)) segs)\<rparr>)"
  using assms
proof (induction segs arbitrary: w es)
  case Nil
  then show ?case by (simp add: ret_def)
next
  case (Cons s segs)
  from Cons.prems(1) obtain y ys where es: "es = y # ys" by (cases es) auto
  define w1 where "w1 = w\<lparr>trace := trace w @ crops_of env (cfile w) s\<rparr>"
  have "fst (get_embedding env s w) = Inr y" using Cons.prems(2) es by fastforce
  then have 1: "get_embedding env s w = (Inr y, w1)"
    using get_embedding_trace [of env s w] unfolding w1_def
    by (cases "get_embedding env s w") simp
  have f1: "cfile w1 = cfile w" by (simp add: w1_def)
  have "mapM (get_embedding env) segs w1
           = (Inr ys, w1\<lparr>trace := trace w1 @ concat (map (crops_of env (cfile w1)) segs)\<rparr>)"
  proof (rule Cons.IH)
    show "length ys = length segs" using Cons.prems(1) es by simp
    show "\<forall>j < length segs. fst (get_embedding env (segs ! j) w1) = Inr (ys ! j)"
      using Cons.prems(2) es get_embedding_cong [OF f1, of env] by fastforce
  qed
  with 1 es show ?case by (simp add: bnd_def ret_def f1) (simp add: w1_def)
qed


lemma cluster_long_fail:
  assumes long: "long = filter (\<lambda>s. duration_of s \<ge> emb_duration hp) seg"
    and two: "2 \<le> length long"
    and k: "k < length long"
    and before: "\<forall>j < k. \<exists>y. fst (get_embedding env (long ! j) w) = Inr y"
    and fail: "fst (get_embedding env (long ! k) w) = Inl e"
  shows "SimpleDiarization_cluster env hp u seg w
           = (Inl e, w\<lparr>trace := trace w
                @ concat (map (crops_of env (cfile w)) (take (Suc k) long))\<rparr>)"
proof -
  have long_ne: "length long \<noteq> 0" "length long \<noteq> 1" using two by auto
  have "mapM (get_embedding env) long w
           = (Inl e, w\<lparr>trace := trace w
                @ concat (map (crops_of env (cfile w)) (take (Suc k) long))\<rparr>)"
    using k before fail by (rule mapM_get_embedding_fail)
  then show ?thesis
    using long_ne unfolding SimpleDiarization_cluster_def long [symmetric] Let_def
    by (simp add: bnd_def)
qed

lemma cluster_short_fail:
  assumes long: "long = filter (\<lambda>s. duration_of s \<ge> emb_duration hp) seg"
    and shrt: "shrt = filter (\<lambda>s. duration_of s < emb_duration hp) seg"
    and two: "2 \<le> length long"
    and len: "length es = length long"
    and es: "\<forall>j < length long. fst (get_embedding env (long ! j) w) = Inr (es ! j)"
    and pool: "pool_fcluster env es (emb_threshold hp) = Inr cl"
    and k: "k < length shrt"
    and before: "\<forall>j < k. \<exists>y. fst (get_embedding env (shrt ! j) w) = Inr y"
    and fail: "fst (get_embedding env (shrt ! k) w) = Inl e"
  shows "SimpleDiarization_cluster env hp u seg w
           = (Inl e, w\<lparr>trace := trace w
                @ concat (map (crops_of env (cfile w)) long) @ [Pool_fcluster (length long)]
                @ concat (map (crops_of env (cfile w)) (take (Suc k) shrt))\<rparr>)"
proof -
  have long_ne: "length long \<noteq> 0" "length long \<noteq> 1" using two by auto
  have shrt_ne: "length shrt \<noteq> 0" using k by auto
  define w2 where "w2 = w\<lparr>trace := trace w @ concat (map (crops_of env (cfile w)) long)\<rparr>"
  define w3 where "w3 = w2\<lparr>trace := trace w2 @ [Pool_fcluster (length es)]\<rparr>"
  have f3: "cfile w3 = cfile w" by (simp add: w3_def w2_def)
  have 1: "mapM (get_embedding env) long w = (Inr es, w2)"
    unfolding w2_def using len es by (rule mapM_get_embedding_InrI)
  have 2: "mapM (get_embedding env) shrt w3
           = (Inl e, w3\<lparr>trace := trace w3
                @ concat (map (crops_of env (cfile w3)) (take (Suc k) shrt))\<rparr>)"
  proof (rule mapM_get_embedding_fail [OF k])
    show "\<forall>j < k. \<exists>y. fst (get_embedding env (shrt ! j) w3) = Inr y"
      using before get_embedding_cong [OF f3, of env] by simp
    show "fst (get_embedding env (shrt ! k) w3) = Inl e"
      using fail get_embedding_cong [OF f3, of env] by simp
  qed
  have "SimpleDiarization_cluster env hp u seg w
          = (Inl e, w3\<lparr>trace := trace w3
                @ concat (map (crops_of env (cfile w3)) (take (Suc k) shrt))\<rparr>)"
    using long_ne shrt_ne 1 2 pool
    unfolding SimpleDiarization_cluster_def long [symmetric] shrt [symmetric] Let_def
    by (simp add: bnd_def extern_def w3_def)
  then show ?thesis by (simp add: f3) (simp add: w3_def w2_def len)
qed

lemma cluster_Inr_trace:
  assumes cl: "SimpleDiarization_cluster env hp u seg w = (Inr annotation, w')"
    and long: "long = filter (\<lambda>s. duration_of s \<ge> emb_duration hp) seg"
    and shrt: "shrt = filter (\<lambda>s. duration_of s < emb_duration hp) seg"
    and two: "2 \<le> length long"
  shows "w' = w\<lparr>trace := trace w
                @ concat (map (crops_of env (cfile w)) long) @ [Pool_fcluster (length long)]
                @ concat (map (crops_of env (cfile w)) shrt)\<rparr>"
proof -
  have long_ne: "long \<noteq> []" "length long \<noteq> 1" using two by auto
  from cl obtain emb_long w2 where
    el: "mapM (get_embedding env) long w = (Inr emb_long, w2)"
    using long_ne unfolding SimpleDiarization_cluster_def long [symmetric] Let_def
    by (auto simp: bnd_def split: prod.splits sum.splits)
  have w2: "w2 = w\<lparr>trace := trace w @ concat (map (crops_of env (cfile w)) long)\<rparr>"
    using el by (rule mapM_get_embedding_trace)
  have len: "length emb_long = length long"
    using mapM_get_embedding_Inr [OF el] by simp
  define w3 where "w3 = w2\<lparr>trace := trace w2 @ [Pool_fcluster (length emb_long)]\<rparr>"
  have f3: "cfile w3 = cfile w" by (simp add: w3_def w2)
  show ?thesis
  proof (cases "shrt = []")
    case True
    with cl el long_ne have "w' = w3"
      unfolding SimpleDiarization_cluster_def long [symmetric] shrt [symmetric] Let_def
      by (auto simp: bnd_def extern_def lift_def w3_def split: prod.splits sum.splits)
    with True show ?thesis by (simp add: w3_def w2 len)
  next
    case False
    with cl el long_ne obtain emb_shrt w4 where
      es: "mapM (get_embedding env) shrt w3 = (Inr emb_shrt, w4)" and "w' = w4"
      unfolding SimpleDiarization_cluster_def long [symmetric] shrt [symmetric] Let_def
      by (auto simp: bnd_def extern_def lift_def ret_def w3_def split: prod.splits sum.splits)
    moreover have "w4 = w3\<lparr>trace := trace w3 @ concat (map (crops_of env (cfile w3)) shrt)\<rparr>"
      using es by (rule mapM_get_embedding_trace)
    ultimately show ?thesis by (simp add: f3) (simp add: w3_def w2 len)
  qed
qed


lemma crops_of_retry:
  "emb_crop env f segment = Inl RuntimeError \<Longrightarrow> extended_segment f segment = Inr x \<Longrightarrow>
   crops_of env f segment = [Emb_crop segment, Emb_crop x]"
  by (simp add: crops_of_def)

lemma extended_segment_explicit:
  assumes "duration f = Some D"
  shows "extended_segment f segment
          = Inr (if (start segment + end' segment) / 2 - 0.0785 < 0
                 then \<lparr>start = 0, end' = 0.157\<rparr>
                 else if (start segment + end' segment) / 2 + 0.0785 > D
                 then \<lparr>start = D - 0.157, end' = D\<rparr>
                 else \<lparr>start = (start segment + end' segment) / 2 - 0.0785,
                       end' = (start segment + end' segment) / 2 + 0.0785\<rparr>)"
proof -
  have mid: "middle segment = (start segment + end' segment) / 2"
    by (simp add: middle_def)
  have half: "0.5 * MIN_DURATION = 0.0785"
    by (simp add: MIN_DURATION_def)
  show ?thesis
    unfolding extended_segment_def mid half using assms
    by (simp add: MIN_DURATION_def)
qed

text \<open>
  C8. (1) When the first crop for a segment raises \<open>RuntimeError\<close> and the extended segment
  exists, the extended segment is cropped, once, and the outcome of that second crop is the
  outcome of \<open>get_embedding\<close>: its mean embedding, or its error, unchanged; these two crops
  are the crops of the call. (2) In a recording of duration \<open>D\<close> the extended segment is
  \<open>[0, 0.157]\<close>, \<open>[D - 0.157, D]\<close> or the 157 ms around the midpoint of the segment.
  (3, 4) In every case \<open>get_embedding\<close> makes one or two crops and nothing else: those of
  \<open>crops_of\<close>. (5) In an invocation with at least two long segments, if the extraction fails
  with \<open>e\<close> on a long segment, having succeeded on the long segments before it, the
  invocation fails with \<open>e\<close>; its calls after the segments were computed are the crops of
  the long segments up to that one, whose crops are made once and come last. (6) If the
  extraction succeeds on the long segments and the clustering returns, and the extraction
  fails with \<open>e\<close> on a short segment, having succeeded on the short segments before it, the
  invocation fails with \<open>e\<close>; its calls are the crops of the long segments, the clustering,
  and the crops of the short segments up to that one, whose crops are made once and come
  last. (7) An invocation that returns has made the crops of every long segment, the
  clustering, and the crops of every short segment, in this order and nothing else. (8) If
  the extraction fails on any candidate segment, the invocation fails. (9) In every
  invocation each detector and the clustering are called at most once.
\<close>

theorem embedding_retried_once:
  "(emb_crop env (cfile w) segment = Inl RuntimeError
      \<and> extended_segment (cfile w) segment = Inr x \<longrightarrow>
    get_embedding env segment w
      = (map_sum id (np_mean env) (emb_crop env (cfile w) x),
         w\<lparr>trace := trace w @ [Emb_crop segment, Emb_crop x]\<rparr>)
    \<and> crops_of env (cfile w) segment = [Emb_crop segment, Emb_crop x])
   \<and> (duration (cfile w) = Some D \<longrightarrow>
      extended_segment (cfile w) segment
        = Inr (if (start segment + end' segment) / 2 - 0.0785 < 0
               then \<lparr>start = 0, end' = 0.157\<rparr>
               else if (start segment + end' segment) / 2 + 0.0785 > D
               then \<lparr>start = D - 0.157, end' = D\<rparr>
               else \<lparr>start = (start segment + end' segment) / 2 - 0.0785,
                     end' = (start segment + end' segment) / 2 + 0.0785\<rparr>))
   \<and> (\<exists>evs. snd (get_embedding env segment w) = w\<lparr>trace := trace w @ evs\<rparr>
          \<and> length evs \<le> 2 \<and> set evs \<subseteq> range Emb_crop)
   \<and> snd (get_embedding env segment w)
       = w\<lparr>trace := trace w @ crops_of env (cfile w) segment\<rparr>
   \<and> (SimpleDiarization_segments env hp ws = (Inr seg, wc)
        \<and> long = filter (\<lambda>s. duration_of s \<ge> emb_duration hp) seg \<and> 2 \<le> length long
        \<and> k < length long
        \<and> (\<forall>j < k. \<exists>y. fst (get_embedding env (long ! j) wc) = Inr y)
        \<and> fst (get_embedding env (long ! k) wc) = Inl e \<longrightarrow>
      SimpleDiarization_call env hp ws
        = (Inl e, wc\<lparr>trace := trace wc @ concat (map (crops_of env (cfile wc)) (take k long))
                                @ crops_of env (cfile wc) (long ! k)\<rparr>))
   \<and> (SimpleDiarization_segments env hp ws = (Inr seg, wc)
        \<and> long = filter (\<lambda>s. duration_of s \<ge> emb_duration hp) seg \<and> 2 \<le> length long
        \<and> length es = length long
        \<and> (\<forall>j < length long. fst (get_embedding env (long ! j) wc) = Inr (es ! j))
        \<and> pool_fcluster env es (emb_threshold hp) = Inr cl
        \<and> shrt = filter (\<lambda>s. duration_of s < emb_duration hp) seg
        \<and> i < length shrt
        \<and> (\<forall>j < i. \<exists>y. fst (get_embedding env (shrt ! j) wc) = Inr y)
        \<and> fst (get_embedding env (shrt ! i) wc) = Inl e \<longrightarrow>
      SimpleDiarization_call env hp ws
        = (Inl e, wc\<lparr>trace := trace wc @ concat (map (crops_of env (cfile wc)) long)
                                @ [Pool_fcluster (length long)]
                                @ concat (map (crops_of env (cfile wc)) (take i shrt))
                                @ crops_of env (cfile wc) (shrt ! i)\<rparr>))
   \<and> (SimpleDiarization_segments env hp ws = (Inr seg, wc)
        \<and> long = filter (\<lambda>s. duration_of s \<ge> emb_duration hp) seg \<and> 2 \<le> length long
        \<and> shrt = filter (\<lambda>s. duration_of s < emb_duration hp) seg
        \<and> SimpleDiarization_call env hp ws = (Inr annotation, w') \<longrightarrow>
      w' = wc\<lparr>trace := trace wc @ concat (map (crops_of env (cfile wc)) long)
                          @ [Pool_fcluster (length long)]
                          @ concat (map (crops_of env (cfile wc)) shrt)\<rparr>)
   \<and> (SimpleDiarization_segments env hp ws = (Inr seg, wc)
        \<and> 2 \<le> length (filter (\<lambda>s. duration_of s \<ge> emb_duration hp) seg)
        \<and> s \<in> set seg \<and> fst (get_embedding env s wc) = Inl e' \<longrightarrow>
      (\<exists>e''. fst (SimpleDiarization_call env hp ws) = Inl e''))
   \<and> (\<exists>evs. trace (snd (SimpleDiarization_call env hp ws)) = trace ws @ evs \<and> once evs)"
proof -
  let ?u = "Some (case uri (cfile ws) of None \<Rightarrow> ''pyannote'' | Some v \<Rightarrow> v)"
  have p1: "emb_crop env (cfile w) segment = Inl RuntimeError
      \<and> extended_segment (cfile w) segment = Inr x \<longrightarrow>
    get_embedding env segment w
      = (map_sum id (np_mean env) (emb_crop env (cfile w) x),
         w\<lparr>trace := trace w @ [Emb_crop segment, Emb_crop x]\<rparr>)
    \<and> crops_of env (cfile w) segment = [Emb_crop segment, Emb_crop x]"
    using get_embedding_retry [of env w segment x] crops_of_retry [of env "cfile w" segment x]
    by simp
  have p2: "duration (cfile w) = Some D \<longrightarrow>
      extended_segment (cfile w) segment
        = Inr (if (start segment + end' segment) / 2 - 0.0785 < 0
               then \<lparr>start = 0, end' = 0.157\<rparr>
               else if (start segment + end' segment) / 2 + 0.0785 > D
               then \<lparr>start = D - 0.157, end' = D\<rparr>
               else \<lparr>start = (start segment + end' segment) / 2 - 0.0785,
                     end' = (start segment + end' segment) / 2 + 0.0785\<rparr>)"
    using extended_segment_explicit [of "cfile w" D segment] by blast
  have p3: "\<exists>evs. snd (get_embedding env segment w) = w\<lparr>trace := trace w @ evs\<rparr>
          \<and> length evs \<le> 2 \<and> set evs \<subseteq> range Emb_crop"
    by (rule get_embedding_at_most_two)
  have p4: "snd (get_embedding env segment w)
       = w\<lparr>trace := trace w @ crops_of env (cfile w) segment\<rparr>"
    by (rule get_embedding_trace)
  have p5: "SimpleDiarization_segments env hp ws = (Inr seg, wc)
        \<and> long = filter (\<lambda>s. duration_of s \<ge> emb_duration hp) seg \<and> 2 \<le> length long
        \<and> k < length long
        \<and> (\<forall>j < k. \<exists>y. fst (get_embedding env (long ! j) wc) = Inr y)
        \<and> fst (get_embedding env (long ! k) wc) = Inl e \<longrightarrow>
      SimpleDiarization_call env hp ws
        = (Inl e, wc\<lparr>trace := trace wc @ concat (map (crops_of env (cfile wc)) (take k long))
                                @ crops_of env (cfile wc) (long ! k)\<rparr>)"
  proof
    assume a: "SimpleDiarization_segments env hp ws = (Inr seg, wc)
        \<and> long = filter (\<lambda>s. duration_of s \<ge> emb_duration hp) seg \<and> 2 \<le> length long
        \<and> k < length long
        \<and> (\<forall>j < k. \<exists>y. fst (get_embedding env (long ! j) wc) = Inr y)
        \<and> fst (get_embedding env (long ! k) wc) = Inl e"
    then have long: "long = filter (\<lambda>s. duration_of s \<ge> emb_duration hp) seg"
      and two: "2 \<le> length long" and k: "k < length long"
      and before: "\<forall>j < k. \<exists>y. fst (get_embedding env (long ! j) wc) = Inr y"
      and fail: "fst (get_embedding env (long ! k) wc) = Inl e"
      by blast+
    have "SimpleDiarization_cluster env hp ?u seg wc
           = (Inl e, wc\<lparr>trace := trace wc
                @ concat (map (crops_of env (cfile wc)) (take (Suc k) long))\<rparr>)"
      using long two k before fail by (rule cluster_long_fail)
    then show "SimpleDiarization_call env hp ws
        = (Inl e, wc\<lparr>trace := trace wc @ concat (map (crops_of env (cfile wc)) (take k long))
                                @ crops_of env (cfile wc) (long ! k)\<rparr>)"
      using a k by (simp add: call_after_segments take_Suc_conv_app_nth)
  qed
  have p6: "SimpleDiarization_segments env hp ws = (Inr seg, wc)
        \<and> long = filter (\<lambda>s. duration_of s \<ge> emb_duration hp) seg \<and> 2 \<le> length long
        \<and> length es = length long
        \<and> (\<forall>j < length long. fst (get_embedding env (long ! j) wc) = Inr (es ! j))
        \<and> pool_fcluster env es (emb_threshold hp) = Inr cl
        \<and> shrt = filter (\<lambda>s. duration_of s < emb_duration hp) seg
        \<and> i < length shrt
        \<and> (\<forall>j < i. \<exists>y. fst (get_embedding env (shrt ! j) wc) = Inr y)
        \<and> fst (get_embedding env (shrt ! i) wc) = Inl e \<longrightarrow>
      SimpleDiarization_call env hp ws
        = (Inl e, wc\<lparr>trace := trace wc @ concat (map (crops_of env (cfile wc)) long)
                                @ [Pool_fcluster (length long)]
                                @ concat (map (crops_of env (cfile wc)) (take i shrt))
                                @ crops_of env (cfile wc) (shrt ! i)\<rparr>)"
  proof
    assume a: "SimpleDiarization_segments env hp ws = (Inr seg, wc)
        \<and> long = filter (\<lambda>s. duration_of s \<ge> emb_duration hp) seg \<and> 2 \<le> length long
        \<and> length es = length long
        \<and> (\<forall>j < length long. fst (get_embedding env (long ! j) wc) = Inr (es ! j))
        \<and> pool_fcluster env es (emb_threshold hp) = Inr cl
        \<and> shrt = filter (\<lambda>s. duration_of s < emb_duration hp) seg
        \<and> i < length shrt
        \<and> (\<forall>j < i. \<exists>y. fst (get_embedding env (shrt ! j) wc) = Inr y)
        \<and> fst (get_embedding env (shrt ! i) wc) = Inl e"
    then have long: "long = filter (\<lambda>s. duration_of s \<ge> emb_duration hp) seg"
      and shrt: "shrt = filter (\<lambda>s. duration_of s < emb_duration hp) seg"
      and two: "2 \<le> length long" and len: "length es = length long"
      and es: "\<forall>j < length long. fst (get_embedding env (long ! j) wc) = Inr (es ! j)"
      and pool: "pool_fcluster env es (emb_threshold hp) = Inr cl"
      and i: "i < length shrt"
      and before: "\<forall>j < i. \<exists>y. fst (get_embedding env (shrt ! j) wc) = Inr y"
      and fail: "fst (get_embedding env (shrt ! i) wc) = Inl e"
      by blast+
    have "SimpleDiarization_cluster env hp ?u seg wc
           = (Inl e, wc\<lparr>trace := trace wc
                @ concat (map (crops_of env (cfile wc)) long) @ [Pool_fcluster (length long)]
                @ concat (map (crops_of env (cfile wc)) (take (Suc i) shrt))\<rparr>)"
      using long shrt two len es pool i before fail by (rule cluster_short_fail)
    then show "SimpleDiarization_call env hp ws
        = (Inl e, wc\<lparr>trace := trace wc @ concat (map (crops_of env (cfile wc)) long)
                                @ [Pool_fcluster (length long)]
                                @ concat (map (crops_of env (cfile wc)) (take i shrt))
                                @ crops_of env (cfile wc) (shrt ! i)\<rparr>)"
      using a i by (simp add: call_after_segments take_Suc_conv_app_nth)
  qed
  have p7: "SimpleDiarization_segments env hp ws = (Inr seg, wc)
        \<and> long = filter (\<lambda>s. duration_of s \<ge> emb_duration hp) seg \<and> 2 \<le> length long
        \<and> shrt = filter (\<lambda>s. duration_of s < emb_duration hp) seg
        \<and> SimpleDiarization_call env hp ws = (Inr annotation, w') \<longrightarrow>
      w' = wc\<lparr>trace := trace wc @ concat (map (crops_of env (cfile wc)) long)
                          @ [Pool_fcluster (length long)]
                          @ concat (map (crops_of env (cfile wc)) shrt)\<rparr>"
  proof
    assume a: "SimpleDiarization_segments env hp ws = (Inr seg, wc)
        \<and> long = filter (\<lambda>s. duration_of s \<ge> emb_duration hp) seg \<and> 2 \<le> length long
        \<and> shrt = filter (\<lambda>s. duration_of s < emb_duration hp) seg
        \<and> SimpleDiarization_call env hp ws = (Inr annotation, w')"
    then have long: "long = filter (\<lambda>s. duration_of s \<ge> emb_duration hp) seg"
      and shrt: "shrt = filter (\<lambda>s. duration_of s < emb_duration hp) seg"
      and two: "2 \<le> length long"
      by blast+
    from a have sg: "SimpleDiarization_segments env hp ws = (Inr seg, wc)"
      and cl: "SimpleDiarization_call env hp ws = (Inr annotation, w')"
      by blast+
    from cl have "SimpleDiarization_cluster env hp ?u seg wc = (Inr annotation, w')"
      unfolding call_after_segments [OF sg] .
    then show "w' = wc\<lparr>trace := trace wc @ concat (map (crops_of env (cfile wc)) long)
                          @ [Pool_fcluster (length long)]
                          @ concat (map (crops_of env (cfile wc)) shrt)\<rparr>"
      using long shrt two by (rule cluster_Inr_trace)
  qed
  have p8: "SimpleDiarization_segments env hp ws = (Inr seg, wc)
        \<and> 2 \<le> length (filter (\<lambda>s. duration_of s \<ge> emb_duration hp) seg)
        \<and> s \<in> set seg \<and> fst (get_embedding env s wc) = Inl e' \<longrightarrow>
      (\<exists>e''. fst (SimpleDiarization_call env hp ws) = Inl e'')"
  proof
    assume a: "SimpleDiarization_segments env hp ws = (Inr seg, wc)
        \<and> 2 \<le> length (filter (\<lambda>s. duration_of s \<ge> emb_duration hp) seg)
        \<and> s \<in> set seg \<and> fst (get_embedding env s wc) = Inl e'"
    obtain r w' where c: "SimpleDiarization_cluster env hp ?u seg wc = (r, w')" by fastforce
    have "\<exists>e''. r = Inl e''"
    proof (cases r)
      case (Inr annotation)
      with c a cluster_Inr_embeddings [of env hp ?u seg wc annotation w' s]
      show ?thesis by auto
    qed simp
    with c a show "\<exists>e''. fst (SimpleDiarization_call env hp ws) = Inl e''"
      by (auto simp: call_after_segments)
  qed
  have p9: "\<exists>evs. trace (snd (SimpleDiarization_call env hp ws)) = trace ws @ evs \<and> once evs"
  proof -
    obtain r w' where "SimpleDiarization_call env hp ws = (r, w')" by fastforce
    from call_once [OF this] this show ?thesis by simp
  qed
  show ?thesis
    by (intro conjI) (rule p1 p2 p3 p4 p5 p6 p7 p8 p9)+
qed


lemma segments_example_failing:
  "SimpleDiarization_segments example_failing_env (example_hyper d) example_world
     = (Inr [\<lparr>start = 0, end' = 4\<rparr>, \<lparr>start = 4, end' = 7\<rparr>, \<lparr>start = 7, end' = 9\<rparr>],
        example_cached)"
  by (simp add: SimpleDiarization_segments_def SimpleDiarization_split_def
        get_sad_scores_def get_scd_scores_def remove_tiny_def
        cached_scores_def bnd_def get_file_def ret_def extern_def set_file_def lift_def
        nanmean_def np_exp_def Let_def example_failing_env_def example_env_def
        Timeline_crop_def Timeline_support_def Timeline_def co_iter_def
        intersects_def Segment_and_def Segment_or_def Segment_xor_def seg_key_def
        example_eval)

lemma segments_example_short_failing:
  "SimpleDiarization_segments example_short_failing_env (example_hyper d) example_world
     = (Inr [\<lparr>start = 0, end' = 4\<rparr>, \<lparr>start = 4, end' = 7\<rparr>, \<lparr>start = 7, end' = 9\<rparr>],
        example_cached)"
  by (simp add: SimpleDiarization_segments_def SimpleDiarization_split_def
        get_sad_scores_def get_scd_scores_def remove_tiny_def
        cached_scores_def bnd_def get_file_def ret_def extern_def set_file_def lift_def
        nanmean_def np_exp_def Let_def example_short_failing_env_def example_env_def
        Timeline_crop_def Timeline_support_def Timeline_def co_iter_def
        intersects_def Segment_and_def Segment_or_def Segment_xor_def seg_key_def
        example_eval)

text \<open>Two invocations on the example with \<open>emb_duration = 2.5\<close>. In the first the embedding
  model refuses the first long segment and fails on its extension. In the second it
  accepts the two long segments, refuses the short one and fails on its extension, after
  the clustering.\<close>

theorem embedding_retried_once_witness:
  "emb_crop example_failing_env (cfile example_cached) \<lparr>start = 0, end' = 4\<rparr> = Inl RuntimeError
   \<and> duration (cfile example_cached) = Some 10
   \<and> extended_segment (cfile example_cached) \<lparr>start = 0, end' = 4\<rparr>
       = Inr \<lparr>start = 1.9215, end' = 2.0785\<rparr>
   \<and> emb_crop example_failing_env (cfile example_cached) \<lparr>start = 1.9215, end' = 2.0785\<rparr>
       = Inl (OtherError ''out of memory'')
   \<and> get_embedding example_failing_env \<lparr>start = 0, end' = 4\<rparr> example_cached
       = (Inl (OtherError ''out of memory''),
          example_cached\<lparr>trace := trace example_cached
             @ [Emb_crop \<lparr>start = 0, end' = 4\<rparr>, Emb_crop \<lparr>start = 1.9215, end' = 2.0785\<rparr>]\<rparr>)
   \<and> SimpleDiarization_segments example_failing_env (example_hyper 2.5) example_world
       = (Inr [\<lparr>start = 0, end' = 4\<rparr>, \<lparr>start = 4, end' = 7\<rparr>, \<lparr>start = 7, end' = 9\<rparr>],
          example_cached)
   \<and> SimpleDiarization_call example_failing_env (example_hyper 2.5) example_world
       = (Inl (OtherError ''out of memory''),
          example_cached\<lparr>trace := trace example_cached
             @ [Emb_crop \<lparr>start = 0, end' = 4\<rparr>, Emb_crop \<lparr>start = 1.9215, end' = 2.0785\<rparr>]\<rparr>)
   \<and> SimpleDiarization_segments example_short_failing_env (example_hyper 2.5) example_world
       = (Inr [\<lparr>start = 0, end' = 4\<rparr>, \<lparr>start = 4, end' = 7\<rparr>, \<lparr>start = 7, end' = 9\<rparr>],
          example_cached)
   \<and> fst (get_embedding example_short_failing_env \<lparr>start = 0, end' = 4\<rparr> example_cached)
       = Inr [1, 0]
   \<and> fst (get_embedding example_short_failing_env \<lparr>start = 4, end' = 7\<rparr> example_cached)
       = Inr [0, 1]
   \<and> pool_fcluster example_short_failing_env [[1, 0], [0, 1]]
        (emb_threshold (example_hyper 2.5)) = Inr [1, 2]
   \<and> emb_crop example_short_failing_env (cfile example_cached) \<lparr>start = 7, end' = 9\<rparr>
       = Inl RuntimeError
   \<and> extended_segment (cfile example_cached) \<lparr>start = 7, end' = 9\<rparr>
       = Inr \<lparr>start = 7.9215, end' = 8.0785\<rparr>
   \<and> emb_crop example_short_failing_env (cfile example_cached)
        \<lparr>start = 7.9215, end' = 8.0785\<rparr> = Inl (OtherError ''out of memory'')
   \<and> SimpleDiarization_call example_short_failing_env (example_hyper 2.5) example_world
       = (Inl (OtherError ''out of memory''),
          example_cached\<lparr>trace := trace example_cached
             @ [Emb_crop \<lparr>start = 0, end' = 4\<rparr>, Emb_crop \<lparr>start = 4, end' = 7\<rparr>,
                Pool_fcluster 2,
                Emb_crop \<lparr>start = 7, end' = 9\<rparr>, Emb_crop \<lparr>start = 7.9215, end' = 8.0785\<rparr>]\<rparr>)
   \<and> \<lparr>start = 7, end' = 9\<rparr>
       \<in> set [\<lparr>start = 0, end' = 4\<rparr>, \<lparr>start = 4, end' = 7\<rparr>, \<lparr>start = 7, end' = 9\<rparr>]
   \<and> (\<exists>e''. fst (SimpleDiarization_call example_short_failing_env (example_hyper 2.5)
                    example_world) = Inl e'')
   \<and> SimpleDiarization_segments example_env (example_hyper 2.5) example_world
       = (Inr [\<lparr>start = 0, end' = 4\<rparr>, \<lparr>start = 4, end' = 7\<rparr>, \<lparr>start = 7, end' = 9\<rparr>],
          example_cached)
   \<and> SimpleDiarization_call example_env (example_hyper 2.5) example_world
     = (Inr \<lparr>ann_uri = Some ''pyannote'',
             tracks = [((\<lparr>start = 0, end' = 4\<rparr>, ''_''), Num 1),
                       ((\<lparr>start = 4, end' = 7\<rparr>, ''_''), Num 2),
                       ((\<lparr>start = 7, end' = 9\<rparr>, ''_''), Num 1)]\<rparr>,
        example_clustered)
   \<and> example_clustered
       = example_cached\<lparr>trace := trace example_cached
           @ [Emb_crop \<lparr>start = 0, end' = 4\<rparr>, Emb_crop \<lparr>start = 4, end' = 7\<rparr>,
              Pool_fcluster 2, Emb_crop \<lparr>start = 7, end' = 9\<rparr>]\<rparr>"
proof -
  let ?long = "[\<lparr>start = 0, end' = 4\<rparr>, \<lparr>start = 4, end' = 7\<rparr>]"
  let ?seg = "[\<lparr>start = 0, end' = 4\<rparr>, \<lparr>start = 4, end' = 7\<rparr>, \<lparr>start = 7, end' = 9\<rparr>]"
  have first: "emb_crop example_failing_env (cfile example_cached) \<lparr>start = 0, end' = 4\<rparr>
      = Inl RuntimeError"
    by (simp add: example_failing_env_def example_env_def)
  have dur: "duration (cfile example_cached) = Some 10"
    by (simp add: example_eval)
  have second: "emb_crop example_failing_env (cfile example_cached)
      \<lparr>start = 1.9215, end' = 2.0785\<rparr> = Inl (OtherError ''out of memory'')"
    by (simp add: example_failing_env_def example_env_def)
  note a = embedding_retried_once [where env = example_failing_env and w = example_cached
      and segment = "\<lparr>start = 0, end' = 4\<rparr>" and x = "\<lparr>start = 1.9215, end' = 2.0785\<rparr>"
      and D = 10 and hp = "example_hyper 2.5" and ws = example_world
      and seg = ?seg and wc = example_cached and long = ?long and k = 0
      and e = "OtherError ''out of memory''"]
  have ext: "extended_segment (cfile example_cached) \<lparr>start = 0, end' = 4\<rparr>
      = Inr \<lparr>start = 1.9215, end' = 2.0785\<rparr>"
    using a dur by simp
  have g: "get_embedding example_failing_env \<lparr>start = 0, end' = 4\<rparr> example_cached
       = (Inl (OtherError ''out of memory''),
          example_cached\<lparr>trace := trace example_cached
             @ [Emb_crop \<lparr>start = 0, end' = 4\<rparr>, Emb_crop \<lparr>start = 1.9215, end' = 2.0785\<rparr>]\<rparr>)"
    and cr: "crops_of example_failing_env (cfile example_cached) \<lparr>start = 0, end' = 4\<rparr>
       = [Emb_crop \<lparr>start = 0, end' = 4\<rparr>, Emb_crop \<lparr>start = 1.9215, end' = 2.0785\<rparr>]"
    using a first ext second by simp_all
  have long: "?long = filter (\<lambda>s. duration_of s \<ge> emb_duration (example_hyper 2.5)) ?seg"
    by (simp add: example_eval)
  note a5 = a [THEN conjunct2, THEN conjunct2, THEN conjunct2, THEN conjunct2, THEN conjunct1]
  have "SimpleDiarization_call example_failing_env (example_hyper 2.5) example_world
       = (Inl (OtherError ''out of memory''),
          example_cached\<lparr>trace := trace example_cached
             @ concat (map (crops_of example_failing_env (cfile example_cached)) (take 0 ?long))
             @ crops_of example_failing_env (cfile example_cached) (?long ! 0)\<rparr>)"
  proof (rule a5 [THEN mp], intro conjI)
    show "SimpleDiarization_segments example_failing_env (example_hyper 2.5) example_world
       = (Inr ?seg, example_cached)"
      by (rule segments_example_failing)
    show "?long = filter (\<lambda>s. duration_of s \<ge> emb_duration (example_hyper 2.5)) ?seg"
      by (rule long)
    show "2 \<le> length ?long" by simp
    show "0 < length ?long" by simp
    show "\<forall>j < 0. \<exists>y. fst (get_embedding example_failing_env (?long ! j) example_cached) = Inr y"
      by simp
    show "fst (get_embedding example_failing_env (?long ! 0) example_cached)
        = Inl (OtherError ''out of memory'')"
      using g by simp
  qed
  then have c: "SimpleDiarization_call example_failing_env (example_hyper 2.5) example_world
       = (Inl (OtherError ''out of memory''),
          example_cached\<lparr>trace := trace example_cached
             @ [Emb_crop \<lparr>start = 0, end' = 4\<rparr>, Emb_crop \<lparr>start = 1.9215, end' = 2.0785\<rparr>]\<rparr>)"
    using cr by simp
  note b = embedding_retried_once [where env = example_short_failing_env
      and w = example_cached
      and segment = "\<lparr>start = 7, end' = 9\<rparr>" and x = "\<lparr>start = 7.9215, end' = 8.0785\<rparr>"
      and D = 10 and hp = "example_hyper 2.5" and ws = example_world
      and seg = ?seg and wc = example_cached and long = ?long
      and es = "[[1, 0], [0, 1]]" and cl = "[1, 2]" and shrt = "[\<lparr>start = 7, end' = 9\<rparr>]"
      and i = 0 and e = "OtherError ''out of memory''"]
  have e0: "fst (get_embedding example_short_failing_env \<lparr>start = 0, end' = 4\<rparr> example_cached)
       = Inr [1, 0]"
    and e1: "fst (get_embedding example_short_failing_env \<lparr>start = 4, end' = 7\<rparr> example_cached)
       = Inr [0, 1]"
    and c0: "crops_of example_short_failing_env (cfile example_cached) \<lparr>start = 0, end' = 4\<rparr>
       = [Emb_crop \<lparr>start = 0, end' = 4\<rparr>]"
    and c1: "crops_of example_short_failing_env (cfile example_cached) \<lparr>start = 4, end' = 7\<rparr>
       = [Emb_crop \<lparr>start = 4, end' = 7\<rparr>]"
    by (simp_all add: get_embedding_first_ok crops_of_def example_short_failing_env_def
          example_env_def mean_axis0_def column_def)
  have es: "\<forall>j < length ?long.
      fst (get_embedding example_short_failing_env (?long ! j) example_cached)
        = Inr ([[1, 0], [0, 1]] ! j)"
    using e0 e1 by (simp add: less_Suc_eq)
  have pool: "pool_fcluster example_short_failing_env [[1, 0], [0, 1]]
        (emb_threshold (example_hyper 2.5)) = Inr [1, 2]"
    by (simp add: example_short_failing_env_def example_env_def)
  have shrt: "[\<lparr>start = 7, end' = 9\<rparr>]
      = filter (\<lambda>s. duration_of s < emb_duration (example_hyper 2.5)) ?seg"
    by (simp add: example_eval)
  have first': "emb_crop example_short_failing_env (cfile example_cached)
      \<lparr>start = 7, end' = 9\<rparr> = Inl RuntimeError"
    by (simp add: example_short_failing_env_def example_env_def)
  have ext': "extended_segment (cfile example_cached) \<lparr>start = 7, end' = 9\<rparr>
       = Inr \<lparr>start = 7.9215, end' = 8.0785\<rparr>"
    using b dur by simp
  have second': "emb_crop example_short_failing_env (cfile example_cached)
        \<lparr>start = 7.9215, end' = 8.0785\<rparr> = Inl (OtherError ''out of memory'')"
    by (simp add: example_short_failing_env_def example_env_def)
  have g': "get_embedding example_short_failing_env \<lparr>start = 7, end' = 9\<rparr> example_cached
       = (Inl (OtherError ''out of memory''),
          example_cached\<lparr>trace := trace example_cached
             @ [Emb_crop \<lparr>start = 7, end' = 9\<rparr>, Emb_crop \<lparr>start = 7.9215, end' = 8.0785\<rparr>]\<rparr>)"
    and cr': "crops_of example_short_failing_env (cfile example_cached) \<lparr>start = 7, end' = 9\<rparr>
       = [Emb_crop \<lparr>start = 7, end' = 9\<rparr>, Emb_crop \<lparr>start = 7.9215, end' = 8.0785\<rparr>]"
    using b first' ext' second' by simp_all
  note b6 = b [THEN conjunct2, THEN conjunct2, THEN conjunct2, THEN conjunct2, THEN conjunct2,
      THEN conjunct1]
  have "SimpleDiarization_call example_short_failing_env (example_hyper 2.5) example_world
       = (Inl (OtherError ''out of memory''),
          example_cached\<lparr>trace := trace example_cached
             @ concat (map (crops_of example_short_failing_env (cfile example_cached)) ?long)
             @ [Pool_fcluster (length ?long)]
             @ concat (map (crops_of example_short_failing_env (cfile example_cached))
                 (take 0 [\<lparr>start = 7, end' = 9\<rparr>]))
             @ crops_of example_short_failing_env (cfile example_cached)
                 ([\<lparr>start = 7, end' = 9\<rparr>] ! 0)\<rparr>)"
  proof (rule b6 [THEN mp], intro conjI)
    show "SimpleDiarization_segments example_short_failing_env (example_hyper 2.5) example_world
       = (Inr ?seg, example_cached)"
      by (rule segments_example_short_failing)
    show "?long = filter (\<lambda>s. duration_of s \<ge> emb_duration (example_hyper 2.5)) ?seg"
      by (rule long)
    show "2 \<le> length ?long" by simp
    show "length [[1, 0], [0, 1 :: real]] = length ?long" by simp
    show "\<forall>j < length ?long.
      fst (get_embedding example_short_failing_env (?long ! j) example_cached)
        = Inr ([[1, 0], [0, 1]] ! j)"
      by (rule es)
    show "pool_fcluster example_short_failing_env [[1, 0], [0, 1]]
        (emb_threshold (example_hyper 2.5)) = Inr [1, 2]"
      by (rule pool)
    show "[\<lparr>start = 7, end' = 9\<rparr>]
      = filter (\<lambda>s. duration_of s < emb_duration (example_hyper 2.5)) ?seg"
      by (rule shrt)
    show "0 < length [\<lparr>start = 7 :: real, end' = 9\<rparr>]" by simp
    show "\<forall>j < 0. \<exists>y. fst (get_embedding example_short_failing_env
        ([\<lparr>start = 7, end' = 9\<rparr>] ! j) example_cached) = Inr y"
      by simp
    show "fst (get_embedding example_short_failing_env ([\<lparr>start = 7, end' = 9\<rparr>] ! 0)
        example_cached) = Inl (OtherError ''out of memory'')"
      using g' by simp
  qed
  then have c': "SimpleDiarization_call example_short_failing_env (example_hyper 2.5)
        example_world
       = (Inl (OtherError ''out of memory''),
          example_cached\<lparr>trace := trace example_cached
             @ [Emb_crop \<lparr>start = 0, end' = 4\<rparr>, Emb_crop \<lparr>start = 4, end' = 7\<rparr>,
                Pool_fcluster 2,
                Emb_crop \<lparr>start = 7, end' = 9\<rparr>, Emb_crop \<lparr>start = 7.9215, end' = 8.0785\<rparr>]\<rparr>)"
    using cr' c0 c1 by simp
  have mem: "\<lparr>start = 7, end' = 9\<rparr> \<in> set ?seg"
    by simp
  note b8 = embedding_retried_once [where env = example_short_failing_env
      and hp = "example_hyper 2.5" and ws = example_world and seg = ?seg
      and wc = example_cached and s = "\<lparr>start = 7, end' = 9\<rparr>"
      and e' = "OtherError ''out of memory''",
      THEN conjunct2, THEN conjunct2, THEN conjunct2, THEN conjunct2, THEN conjunct2,
      THEN conjunct2, THEN conjunct2, THEN conjunct1]
  have fails: "\<exists>e''. fst (SimpleDiarization_call example_short_failing_env (example_hyper 2.5)
                    example_world) = Inl e''"
  proof (rule b8 [THEN mp], intro conjI)
    show "SimpleDiarization_segments example_short_failing_env (example_hyper 2.5) example_world
       = (Inr ?seg, example_cached)"
      by (rule segments_example_short_failing)
    show "2 \<le> length (filter (\<lambda>s. duration_of s \<ge> emb_duration (example_hyper 2.5)) ?seg)"
      unfolding long [symmetric] by simp
    show "\<lparr>start = 7, end' = 9\<rparr> \<in> set ?seg"
      by (rule mem)
    show "fst (get_embedding example_short_failing_env \<lparr>start = 7, end' = 9\<rparr> example_cached)
        = Inl (OtherError ''out of memory'')"
      using g' by simp
  qed
  note cs = embedding_retried_once [where env = example_env and hp = "example_hyper 2.5"
      and ws = example_world and seg = ?seg and wc = example_cached and long = ?long
      and shrt = "[\<lparr>start = 7, end' = 9\<rparr>]" and w' = example_clustered
      and annotation = "\<lparr>ann_uri = Some ''pyannote'',
             tracks = [((\<lparr>start = 0, end' = 4\<rparr>, ''_''), Num 1),
                       ((\<lparr>start = 4, end' = 7\<rparr>, ''_''), Num 2),
                       ((\<lparr>start = 7, end' = 9\<rparr>, ''_''), Num 1)]\<rparr>",
      THEN conjunct2, THEN conjunct2, THEN conjunct2, THEN conjunct2, THEN conjunct2,
      THEN conjunct2, THEN conjunct1]
  have "example_clustered
       = example_cached\<lparr>trace := trace example_cached
           @ concat (map (crops_of example_env (cfile example_cached)) ?long)
           @ [Pool_fcluster (length ?long)]
           @ concat (map (crops_of example_env (cfile example_cached))
               [\<lparr>start = 7, end' = 9\<rparr>])\<rparr>"
  proof (rule cs [THEN mp], intro conjI)
    show "SimpleDiarization_segments example_env (example_hyper 2.5) example_world
       = (Inr ?seg, example_cached)"
      by (rule segments_example)
    show "?long = filter (\<lambda>s. duration_of s \<ge> emb_duration (example_hyper 2.5)) ?seg"
      by (rule long)
    show "2 \<le> length ?long" by simp
    show "[\<lparr>start = 7, end' = 9\<rparr>]
      = filter (\<lambda>s. duration_of s < emb_duration (example_hyper 2.5)) ?seg"
      by (rule shrt)
    show "SimpleDiarization_call example_env (example_hyper 2.5) example_world
     = (Inr \<lparr>ann_uri = Some ''pyannote'',
             tracks = [((\<lparr>start = 0, end' = 4\<rparr>, ''_''), Num 1),
                       ((\<lparr>start = 4, end' = 7\<rparr>, ''_''), Num 2),
                       ((\<lparr>start = 7, end' = 9\<rparr>, ''_''), Num 1)]\<rparr>,
        example_clustered)"
      by (rule call_example_clustered)
  qed
  then have tr: "example_clustered
       = example_cached\<lparr>trace := trace example_cached
           @ [Emb_crop \<lparr>start = 0, end' = 4\<rparr>, Emb_crop \<lparr>start = 4, end' = 7\<rparr>,
              Pool_fcluster 2, Emb_crop \<lparr>start = 7, end' = 9\<rparr>]\<rparr>"
    by (simp add: crops_of_def example_env_def numeral_2_eq_2)
  from first dur ext second g segments_example_failing [of "2.5"] c
    segments_example_short_failing [of "2.5"] e0 e1 pool first' ext' second' c' mem fails
    segments_example [of "2.5"] call_example_clustered tr
  show ?thesis
    by (intro conjI) assumption+
qed

section \<open>The frame-level pipeline on its example\<close>

lemma Timeline_single: "nonempty s \<Longrightarrow> Timeline [s] = [s]"
  by (simp add: Timeline_def)

lemma encode_example_1:
  "encode (example_frames_env speech overlap) [\<lparr>start = 1, end' = 2\<rparr>] name
      \<lparr>start = 0, end' = 4\<rparr>
      \<lparr>data = [[1, 0], [0, 1], [1, 1], [1, 1]],
       sliding_window = \<lparr>sw_start = 0, sw_duration = 1, sw_step = 1\<rparr>\<rparr>
   = Inr [0, 1, 0, 0]"
  by (simp add: encode_def bindE_def Timeline_to_annotation_def setitem_def Annotation_empty_def
        nonempty_def SEGMENT_PRECISION_def example_encoding_def frame_segment_def middle_def
        example_frames_env_def)

lemma ovl_binarize_example:
  "ovl_binarize_apply (example_frames_env speech overlap) x = Inr overlap"
  "sad_binarize_apply (example_frames_env speech overlap) x = Inr speech"
  "ovl (example_frames_env speech overlap) = Some (\<lambda>f. Inr [[1 / 2]])"
  "sad (example_frames_env speech overlap) = (\<lambda>f. Inr [[1 / 2]])"
  "pool_fcluster (example_frames_env speech overlap)
     = (\<lambda>X t. if X = [] then Inl ValueError
               else Inr (map (\<lambda>x. if 1 \<le> t \<or> x = hd X then 1 else 2) X))"
  "np_mean (example_frames_env speech overlap) = mean_axis0"
  "cdist_cosine (example_frames_env speech overlap) = cosine"
  "argpartition_order (example_frames_env speech overlap) = (\<lambda>c kth. [0..<length c])"
  "one_hot_decoding (example_frames_env speech overlap) = example_decoding"
  "emb (example_frames_env speech overlap)
     = (\<lambda>f. Inr \<lparr>data = [[1, 0], [0, 1], [1, 1], [1, 1]],
                sliding_window = \<lparr>sw_start = 0, sw_duration = 1, sw_step = 1\<rparr>\<rparr>)"
  by (simp_all add: example_frames_env_def)

lemma overlap_example_1:
  "DiscreteDiarization_overlap
      (example_frames_env [\<lparr>start = 1, end' = 2\<rparr>] [\<lparr>start = 1, end' = 2\<rparr>])
      (\<lambda>f. Inr [[1 / 2]])
      \<lparr>data = [[1, 0], [0, 1], [1, 1], [1, 1]],
       sliding_window = \<lparr>sw_start = 0, sw_duration = 1, sw_step = 1\<rparr>\<rparr>
      \<lparr>start = 0, end' = 4\<rparr> [\<lparr>start = 1, end' = 2\<rparr>] [0, 1, 0, 0]
      \<lparr>cfile = example_frames_file\<lparr>sad_scores := Some [[1 / 2]]\<rparr>,
       trace = [Emb_model, Sad_model]\<rparr>
   = (Inr \<lparr>clean_speech = [], noisy_speech = [\<lparr>start = 1, end' = 2\<rparr>],
           clean_speech_indices = [], noisy_speech_indices = [1]\<rparr>,
      \<lparr>cfile = example_frames_file\<lparr>sad_scores := Some [[1 / 2]], ovl_scores := Some [[1 / 2]]\<rparr>,
       trace = [Emb_model, Sad_model, Ovl_model]\<rparr>)"
proof -
  have tl: "Timeline [\<lparr>start = 1, end' = 2\<rparr>] = [\<lparr>start = 1, end' = 2\<rparr>]"
    by (simp add: Timeline_single nonempty_def SEGMENT_PRECISION_def)
  have ext: "Timeline [\<lparr>start = 0, end' = 4\<rparr>] = [\<lparr>start = 0, end' = 4\<rparr>]"
    by (simp add: Timeline_single nonempty_def SEGMENT_PRECISION_def)
  have gaps: "Timeline_gaps [\<lparr>start = 1, end' = 2\<rparr>] \<lparr>start = 0, end' = 4\<rparr>
      = [\<lparr>start = 0, end' = 1\<rparr>, \<lparr>start = 2, end' = 4\<rparr>]"
    by (simp add: Timeline_gaps_def ext Timeline_crop_def Timeline_support_def co_iter_def
          intersects_def Segment_and_def Segment_or_def Segment_xor_def seg_key_def
          nonempty_def duration_of_def SEGMENT_PRECISION_def Timeline_def)
  have clean: "Timeline_crop [\<lparr>start = 1, end' = 2\<rparr>]
      [\<lparr>start = 0, end' = 1\<rparr>, \<lparr>start = 2, end' = 4\<rparr>] = []"
    by (simp add: Timeline_crop_def Timeline_support_def co_iter_def
          intersects_def Segment_and_def Segment_or_def Segment_xor_def seg_key_def
          nonempty_def duration_of_def SEGMENT_PRECISION_def Timeline_def)
  have noisy: "Timeline_crop [\<lparr>start = 1, end' = 2\<rparr>] [\<lparr>start = 1, end' = 2\<rparr>]
      = [\<lparr>start = 1, end' = 2\<rparr>]"
    by (simp add: Timeline_crop_def Timeline_support_def co_iter_def
          intersects_def Segment_and_def Segment_or_def Segment_xor_def seg_key_def
          nonempty_def duration_of_def SEGMENT_PRECISION_def Timeline_def)
  show ?thesis
    by (simp add: DiscreteDiarization_overlap_def DiscreteDiarization_regions_def
          get_ovl_scores_def cached_scores_def
          bnd_def ret_def lift_def extern_def get_file_def set_file_def nanmean_def
          tl gaps clean noisy encode_example_1 np_mul_def np_where_def Let_def
          example_frames_file_def ovl_binarize_example)
qed

lemmas timeline_eval = Timeline_gaps_def Timeline_crop_def Timeline_support_def co_iter_def
  intersects_def Segment_and_def Segment_or_def Segment_xor_def seg_key_def
  nonempty_def duration_of_def SEGMENT_PRECISION_def Timeline_def

lemmas prog_eval = bnd_def ret_def lift_def extern_def get_file_def set_file_def
  get_sad_scores_def get_ovl_scores_def cached_scores_def nanmean_def Let_def

lemma sad_step_example:
  "get_sad_scores (\<lambda>f. Inr [[1 / 2]]) \<lparr>cfile = example_frames_file, trace = [Emb_model]\<rparr>
     = (Inr [[1 / 2]],
        \<lparr>cfile = example_frames_file\<lparr>sad_scores := Some [[1 / 2]]\<rparr>,
         trace = [Emb_model, Sad_model]\<rparr>)"
  by (simp add: prog_eval example_frames_file_def)

text \<open>
  C1, at a failing input: an overlap detector is configured, the only speech frame is also
  an overlap frame. The frames to cluster (clean speech) are none, yet the invocation does
  not return the empty annotation: it goes on to the clustering, which is called on no
  vector at all, and raises.
\<close>

theorem empty_clean_speech_is_clustered:
  "DiscreteDiarization_call
      (example_frames_env [\<lparr>start = 1, end' = 2\<rparr>] [\<lparr>start = 1, end' = 2\<rparr>]) t
      \<lparr>cfile = example_frames_file, trace = []\<rparr>
   = (Inl ValueError,
      \<lparr>cfile = example_frames_file\<lparr>sad_scores := Some [[1 / 2]], ovl_scores := Some [[1 / 2]]\<rparr>,
       trace = [Emb_model, Sad_model, Ovl_model, Pool_fcluster 0]\<rparr>)"
proof -
  have tl: "Timeline [\<lparr>start = 1, end' = 2\<rparr>] = [\<lparr>start = 1, end' = 2\<rparr>]"
    by (simp add: Timeline_single nonempty_def SEGMENT_PRECISION_def)
  have d: "duration example_frames_file = Some 4" "uri example_frames_file = Some ''b''"
    by (simp_all add: example_frames_file_def)
  show ?thesis
    unfolding DiscreteDiarization_call_def DiscreteDiarization_frames_def
    by (simp add: bnd_def ret_def lift_def extern_def get_file_def Let_def d
          ovl_binarize_example tl sad_step_example
          encode_example_1 np_where_def overlap_example_1 np_take_def)
qed

text \<open>With one or two clusters and at least one frame of overlapped speech, the rank given
  to \<open>np.argpartition\<close> is the number of rows of the distance array, which is out of bounds.\<close>

lemma mapE_Inr: "(\<And>x. x \<in> set xs \<Longrightarrow> f x = Inr (g x)) \<Longrightarrow> mapE f xs = Inr (map g xs)"
  by (induction xs) (simp_all add: bindE_def)

lemma overlap_hypothesis_few_clusters:
  assumes few: "num_clusters = 1 \<or> num_clusters = 2"
    and noisy: "noisy_indices \<noteq> []" "\<forall>i \<in> set noisy_indices. i < length (data features)"
    and len: "length cluster = length X"
  shows "overlap_hypothesis env features X cluster num_clusters noisy_indices = Inl ValueError"
proof -
  let ?members = "\<lambda>k. map fst (filter snd (zip X (map (\<lambda>c. c = k) cluster)))"
  let ?cluster_emb = "map (\<lambda>k. np_mean env (?members k)) [0..num_clusters - 1]"
  let ?noisy = "map (\<lambda>i. data features ! i) noisy_indices"
  let ?distance = "cdist (cdist_cosine env) ?cluster_emb ?noisy"
  have 1: "mapE (\<lambda>k. bindE (np_select X (map (\<lambda>c. c = k) cluster))
                          (\<lambda>members. Inr (np_mean env members))) [0..num_clusters - 1]
             = Inr ?cluster_emb"
    by (rule mapE_Inr) (simp add: np_select_def len bindE_def)
  have rows: "length ?cluster_emb = nat num_clusters"
    using few by auto
  then have ne: "?cluster_emb \<noteq> []" using few by auto
  have 2: "np_take (data features) noisy_indices = Inr ?noisy"
    using noisy(2) by (simp add: np_take_def)
  have "length ?distance = nat num_clusters"
    using rows by (simp add: cdist_def)
  moreover have "(case ?distance of [] \<Rightarrow> 0 | row # _ \<Rightarrow> length row) = length noisy_indices"
    using ne by (cases ?cluster_emb) (simp_all add: cdist_def)
  moreover have "nat (min 2 num_clusters) = nat num_clusters"
    using few by auto
  ultimately have 3: "np_argpartition_axis0 (argpartition_order env) ?distance
      (nat (min 2 num_clusters)) = Inl ValueError"
    using few noisy(1) by (auto simp: np_argpartition_axis0_def Let_def)
  show ?thesis
    unfolding overlap_hypothesis_def 1
    by (simp add: bindE_def np_vstack_def ne 2 3 Let_def del: min.absorb4 min.absorb3 min.absorb2 min.absorb1)
qed

lemma encode_example_2:
  "encode (example_frames_env speech overlap) [\<lparr>start = 0, end' = 3\<rparr>] name
      \<lparr>start = 0, end' = 4\<rparr>
      \<lparr>data = [[1, 0], [0, 1], [1, 1], [1, 1]],
       sliding_window = \<lparr>sw_start = 0, sw_duration = 1, sw_step = 1\<rparr>\<rparr>
   = Inr [1, 1, 1, 0]"
  "encode (example_frames_env speech overlap) [\<lparr>start = 2, end' = 3\<rparr>] name
      \<lparr>start = 0, end' = 4\<rparr>
      \<lparr>data = [[1, 0], [0, 1], [1, 1], [1, 1]],
       sliding_window = \<lparr>sw_start = 0, sw_duration = 1, sw_step = 1\<rparr>\<rparr>
   = Inr [0, 0, 1, 0]"
  by (simp_all add: encode_def bindE_def Timeline_to_annotation_def setitem_def
        Annotation_empty_def nonempty_def SEGMENT_PRECISION_def example_encoding_def
        frame_segment_def middle_def example_frames_env_def)

lemma overlap_example_2:
  "DiscreteDiarization_overlap
      (example_frames_env [\<lparr>start = 0, end' = 3\<rparr>] [\<lparr>start = 2, end' = 3\<rparr>])
      (\<lambda>f. Inr [[1 / 2]])
      \<lparr>data = [[1, 0], [0, 1], [1, 1], [1, 1]],
       sliding_window = \<lparr>sw_start = 0, sw_duration = 1, sw_step = 1\<rparr>\<rparr>
      \<lparr>start = 0, end' = 4\<rparr> [\<lparr>start = 0, end' = 3\<rparr>] [1, 1, 1, 0]
      \<lparr>cfile = example_frames_file\<lparr>sad_scores := Some [[1 / 2]]\<rparr>,
       trace = [Emb_model, Sad_model]\<rparr>
   = (Inr \<lparr>clean_speech = [\<lparr>start = 0, end' = 2\<rparr>], noisy_speech = [\<lparr>start = 2, end' = 3\<rparr>],
           clean_speech_indices = [0, 1], noisy_speech_indices = [2]\<rparr>,
      \<lparr>cfile = example_frames_file\<lparr>sad_scores := Some [[1 / 2]], ovl_scores := Some [[1 / 2]]\<rparr>,
       trace = [Emb_model, Sad_model, Ovl_model]\<rparr>)"
proof -
  have tl: "Timeline [\<lparr>start = 2, end' = 3\<rparr>] = [\<lparr>start = 2, end' = 3\<rparr>]"
    by (simp add: Timeline_single nonempty_def SEGMENT_PRECISION_def)
  have gaps: "Timeline_gaps [\<lparr>start = 2, end' = 3\<rparr>] \<lparr>start = 0, end' = 4\<rparr>
      = [\<lparr>start = 0, end' = 2\<rparr>, \<lparr>start = 3, end' = 4\<rparr>]"
    by (simp add: timeline_eval)
  have clean: "Timeline_crop [\<lparr>start = 0, end' = 3\<rparr>]
      [\<lparr>start = 0, end' = 2\<rparr>, \<lparr>start = 3, end' = 4\<rparr>] = [\<lparr>start = 0, end' = 2\<rparr>]"
    by (simp add: timeline_eval)
  have noisy: "Timeline_crop [\<lparr>start = 0, end' = 3\<rparr>] [\<lparr>start = 2, end' = 3\<rparr>]
      = [\<lparr>start = 2, end' = 3\<rparr>]"
    by (simp add: timeline_eval)
  show ?thesis
    by (simp add: DiscreteDiarization_overlap_def DiscreteDiarization_regions_def
          get_ovl_scores_def cached_scores_def
          bnd_def ret_def lift_def extern_def get_file_def set_file_def nanmean_def
          tl gaps clean noisy encode_example_2 np_mul_def np_where_def Let_def
          example_frames_file_def ovl_binarize_example)
qed

text \<open>
  C2, at a failing input: frames 0 and 1 are clean speech, frame 2 is overlapped speech.
  With the threshold 2 the clean frames form one cluster, with the threshold 0.5 two
  clusters. In both cases the frame of overlapped speech gets no label at all: the
  invocation raises in the reassignment step.
\<close>

theorem overlap_reassignment_raises:
  "DiscreteDiarization_call
      (example_frames_env [\<lparr>start = 0, end' = 3\<rparr>] [\<lparr>start = 2, end' = 3\<rparr>]) 2
      \<lparr>cfile = example_frames_file, trace = []\<rparr>
   = (Inl ValueError,
      \<lparr>cfile = example_frames_file\<lparr>sad_scores := Some [[1 / 2]], ovl_scores := Some [[1 / 2]]\<rparr>,
       trace = [Emb_model, Sad_model, Ovl_model, Pool_fcluster 2]\<rparr>)
   \<and> DiscreteDiarization_call
      (example_frames_env [\<lparr>start = 0, end' = 3\<rparr>] [\<lparr>start = 2, end' = 3\<rparr>]) (1 / 2)
      \<lparr>cfile = example_frames_file, trace = []\<rparr>
   = (Inl ValueError,
      \<lparr>cfile = example_frames_file\<lparr>sad_scores := Some [[1 / 2]], ovl_scores := Some [[1 / 2]]\<rparr>,
       trace = [Emb_model, Sad_model, Ovl_model, Pool_fcluster 2]\<rparr>)"
proof -
  let ?env = "example_frames_env [\<lparr>start = 0, end' = 3\<rparr>] [\<lparr>start = 2, end' = 3\<rparr>]"
  let ?features = "\<lparr>data = [[1, 0], [0, 1], [1, 1], [1, 1 :: real]],
       sliding_window = \<lparr>sw_start = 0, sw_duration = 1, sw_step = 1\<rparr>\<rparr>"
  have tl: "Timeline [\<lparr>start = 0, end' = 3\<rparr>] = [\<lparr>start = 0, end' = 3\<rparr>]"
    by (simp add: Timeline_single nonempty_def SEGMENT_PRECISION_def)
  have d: "duration example_frames_file = Some 4" "uri example_frames_file = Some ''b''"
    by (simp_all add: example_frames_file_def)
  have one: "overlap_hypothesis ?env ?features [[1, 0], [0, 1]] [0, 0] 1 [2] = Inl ValueError"
    by (rule overlap_hypothesis_few_clusters) simp_all
  have two: "overlap_hypothesis ?env ?features [[1, 0], [0, 1]] [0, 1] 2 [2] = Inl ValueError"
    by (rule overlap_hypothesis_few_clusters) simp_all
  have decoded: "one_hot_decoding ?env y window labels = example_decoding y window labels"
    for y window labels
    by (simp add: ovl_binarize_example)
  have ok: "\<exists>a. example_decoding y window labels = Inr a" for y window labels
    by (simp add: example_decoding_def)
  have first: "DiscreteDiarization_call ?env 2 \<lparr>cfile = example_frames_file, trace = []\<rparr>
   = (Inl ValueError,
      \<lparr>cfile = example_frames_file\<lparr>sad_scores := Some [[1 / 2]], ovl_scores := Some [[1 / 2]]\<rparr>,
       trace = [Emb_model, Sad_model, Ovl_model, Pool_fcluster 2]\<rparr>)"
    unfolding DiscreteDiarization_call_def DiscreteDiarization_frames_def
    by (simp add: bnd_def ret_def lift_def extern_def get_file_def Let_def d
          ovl_binarize_example tl sad_step_example bindE_def
          encode_example_2 np_where_def overlap_example_2 np_take_def
          np_max_def np_zeros_def set_one_def one example_decoding_def)
  have second: "DiscreteDiarization_call ?env (1 / 2) \<lparr>cfile = example_frames_file, trace = []\<rparr>
   = (Inl ValueError,
      \<lparr>cfile = example_frames_file\<lparr>sad_scores := Some [[1 / 2]], ovl_scores := Some [[1 / 2]]\<rparr>,
       trace = [Emb_model, Sad_model, Ovl_model, Pool_fcluster 2]\<rparr>)"
    unfolding DiscreteDiarization_call_def DiscreteDiarization_frames_def
    by (simp add: bnd_def ret_def lift_def extern_def get_file_def Let_def d
          ovl_binarize_example tl sad_step_example bindE_def
          encode_example_2 np_where_def overlap_example_2 np_take_def
          np_max_def np_zeros_def set_one_def two example_decoding_def)
  from first second show ?thesis by simp
qed

section \<open>The scores handed to the binarizers\<close>



















lemma lift_keeps: "k (snd (lift r w)) = k w"
  by (simp add: lift_def)

lemma ret_keeps: "k (snd (ret x w)) = k w"
  by (simp add: ret_def)

lemma extern_keeps_file: "k (cfile (snd (extern ev call w))) = k (cfile w)"
  by (simp add: extern_def)











end
